theory Spec2Isabelle
  imports Complex_Main "HOL-Library.FSet" "HOL-Library.AList"
begin

section \<open>Data model (types.ts)\<close>

text \<open>
  The swarm's TypeScript interfaces become records, its string-literal unions become
  datatypes. A JavaScript \<^verbatim>\<open>number\<close> that holds a measure (priority, energy,
  strength, token counts) is a \<^typ>\<open>real\<close>: arithmetic is exact and rounding of doubles
  is not represented. Where the source divides, the quotient is a value of the type
  \<open>jsnum\<close> below, which has \<^verbatim>\<open>Infinity\<close>, \<^verbatim>\<open>-Infinity\<close> and
  \<^verbatim>\<open>NaN\<close>. Counters, issue numbers and millisecond timestamps
  are \<^typ>\<open>nat\<close>. Strings are lists of 8-bit characters, so the string helpers
  below describe ASCII text. A field name used by several interfaces gets a short prefix
  of its interface (\<open>p_id\<close>, \<open>d_id\<close>, \<open>a_id\<close>, ...).
\<close>

record Artifact =
  art_type :: string
  art_content :: string
  filePath :: "string option"
  prUrl :: "string option"

text \<open>The fields \<^verbatim>\<open>EngineeringPheromone\<close> adds to \<^verbatim>\<open>Pheromone\<close>.\<close>

record EngineeringFields =
  pheromoneType :: string
  artifacts :: "Artifact list"
  githubRefs :: "string list"
  codeSnippets :: "string list"

text \<open>
  A pheromone object; \<open>engineering\<close> is \<open>Some\<close> for an
  \<^verbatim>\<open>EngineeringPheromone\<close>, which lives in the same arrays as plain pheromones.
\<close>

record Pheromone =
  p_id :: string
  p_agentId :: string
  content :: string
  domain :: string
  confidence :: real
  strength :: real
  connections :: "string list"
  timestamp :: nat
  attestation :: string
  engineering :: "EngineeringFields option"

record PheromoneChannel =
  pheromones :: "Pheromone list"
  density :: real
  criticalThreshold :: real
  phaseTransitionOccurred :: bool
  transitionStep :: "nat option"

record AgentPersonality =
  curiosity :: real
  diligence :: real
  boldness :: real
  sociability :: real

record AgentThought =
  t_id :: string
  t_agentId :: string
  trigger :: string
  observation :: string
  reasoning :: string
  conclusion :: string
  suggestedActions :: "string list"
  t_confidence :: real
  t_timestamp :: nat

datatype RiskLevel = low | medium | high

record DecisionCost =
  estimatedTokens :: real
  estimatedTimeMs :: real
  riskLevel :: RiskLevel

record DecisionResult =
  success :: bool
  summary :: string
  res_artifacts :: "Artifact list"
  res_tokensUsed :: real

datatype ActionType =
  study_repo | fix_issue | write_code | refactor | document
  | share_technique | contribute_pr | explore_topic

text \<open>
  The discriminated union \<^verbatim>\<open>AgentAction\<close>, one constructor per \<^verbatim>\<open>type\<close>
  tag, with the variant's fields in the order of the interface; an optional field is an
  \<open>option\<close>.
\<close>

datatype AgentAction =
    StudyRepo string string "string option"
  | FixIssue string string nat
  | WriteCode string "string option"
  | Refactor string string string
  | Document string string string
  | ShareTechnique string "string option"
  | ContributePr string string string
  | ExploreTopic string

fun action_type :: "AgentAction \<Rightarrow> ActionType" where
  "action_type (StudyRepo _ _ _) = study_repo"
| "action_type (FixIssue _ _ _) = fix_issue"
| "action_type (WriteCode _ _) = write_code"
| "action_type (Refactor _ _ _) = refactor"
| "action_type (Document _ _ _) = document"
| "action_type (ShareTechnique _ _) = share_technique"
| "action_type (ContributePr _ _ _) = contribute_pr"
| "action_type (ExploreTopic _) = explore_topic"

datatype DecisionStatus = pending | executing | completed | failed

record AgentDecision =
  d_id :: string
  d_agentId :: string
  action :: AgentAction
  priority :: real
  cost :: DecisionCost
  d_status :: DecisionStatus
  result :: "DecisionResult option"
  d_createdAt :: nat
  completedAt :: "nat option"

record GitHubRepo =
  r_owner :: string
  r_repo :: string
  r_description :: string
  language :: string
  stars :: nat
  topics :: "string list"
  r_relevanceScore :: real

datatype Difficulty = easy | medium_difficulty | hard

record GitHubIssue =
  i_owner :: string
  i_repo :: string
  i_number :: nat
  i_title :: string
  body :: string
  labels :: "string list"
  difficulty :: Difficulty
  i_relevanceScore :: real

record Position =
  pos_x :: real
  pos_y :: real

record Velocity =
  vel_dx :: real
  vel_dy :: real

record AgentState =
  a_id :: string
  a_name :: string
  position :: Position
  velocity :: Velocity
  knowledge :: "Pheromone list"
  absorbed :: "string fset"
  explorationTarget :: string
  energy :: real
  synchronized :: bool
  syncedWith :: "string list"
  stepCount :: nat
  discoveries :: nat
  contributionsToCollective :: nat

record AutonomousAgentState = AgentState +
  thoughts :: "AgentThought list"
  decisions :: "AgentDecision list"
  currentDecision :: "AgentDecision option"
  reposStudied :: "string list"
  prsCreated :: "string list"
  tokensUsed :: real
  tokenBudget :: real
  specialization :: string
  personality :: AgentPersonality
  currentAction :: string

datatype ProjectStatus = proposed | active | project_completed


section \<open>JavaScript string and array helpers\<close>

text \<open>\<^verbatim>\<open>xs.slice(-n)\<close>: the last \<open>n\<close> elements, all of them when there are fewer.\<close>

definition slice_last :: "nat \<Rightarrow> 'a list \<Rightarrow> 'a list" where
  "slice_last n xs = drop (length xs - n) xs"

definition lowerChar :: "char \<Rightarrow> char" where
  "lowerChar c =
     (case map_of (zip ''ABCDEFGHIJKLMNOPQRSTUVWXYZ'' ''abcdefghijklmnopqrstuvwxyz'') c of
        Some l \<Rightarrow> l
      | None \<Rightarrow> c)"

definition toLowerCase :: "string \<Rightarrow> string" where
  "toLowerCase s = map lowerChar s"

fun startsWith :: "string \<Rightarrow> string \<Rightarrow> bool" where
  "startsWith s [] = True"
| "startsWith [] (p # ps) = False"
| "startsWith (c # cs) (p # ps) = (c = p \<and> startsWith cs ps)"

fun includes_str :: "string \<Rightarrow> string \<Rightarrow> bool" where
  "includes_str [] p = (p = [])"
| "includes_str (c # cs) p = (startsWith (c # cs) p \<or> includes_str cs p)"

definition isDigit :: "char \<Rightarrow> bool" where
  "isDigit c = (c \<in> set ''0123456789'')"

definition isLetter :: "char \<Rightarrow> bool" where
  "isLetter c =
     (c \<in> set ''abcdefghijklmnopqrstuvwxyzABCDEFGHIJKLMNOPQRSTUVWXYZ'')"

text \<open>The regular expression classes \<^verbatim>\<open>[a-zA-Z0-9_-]\<close> and \<^verbatim>\<open>[a-zA-Z0-9_.-]\<close>.\<close>

definition ownerChar :: "char \<Rightarrow> bool" where
  "ownerChar c = (isLetter c \<or> isDigit c \<or> c = CHR ''_'' \<or> c = CHR ''-'')"

definition repoChar :: "char \<Rightarrow> bool" where
  "repoChar c = (ownerChar c \<or> c = CHR ''.'')"

text \<open>The ASCII members of \<^verbatim>\<open>\s\<close>: space, tab, line feed, vertical tab, form feed, carriage return.\<close>

definition isSpace :: "char \<Rightarrow> bool" where
  "isSpace c = (c \<in> set [CHR '' '', CHR 0x09, CHR 0x0A, CHR 0x0B, CHR 0x0C, CHR 0x0D])"

text \<open>
  \<^verbatim>\<open>s.match(/#(\d+)/)\<close>: the leftmost \<^verbatim>\<open>#\<close> that a digit follows; the group is
  the whole run of digits after it.
\<close>

fun issueMatch :: "string \<Rightarrow> string option" where
  "issueMatch [] = None"
| "issueMatch (c # cs) =
     (if c = CHR ''#'' \<and> takeWhile isDigit cs \<noteq> [] then Some (takeWhile isDigit cs)
      else issueMatch cs)"

definition digitVal :: "char \<Rightarrow> nat" where
  "digitVal c =
     (case map_of (zip ''0123456789'' [0, 1, 2, 3, 4, 5, 6, 7, 8, 9]) c of
        Some v \<Rightarrow> v
      | None \<Rightarrow> 0)"

text \<open>\<^verbatim>\<open>parseInt\<close> on a non-empty run of decimal digits.\<close>

definition parseInt :: "string \<Rightarrow> nat" where
  "parseInt ds = foldl (\<lambda>n c. 10 * n + digitVal c) 0 ds"

text \<open>
  \<^verbatim>\<open>s.match(/([a-zA-Z0-9_-]+)\/([a-zA-Z0-9_.-]+)/)\<close>: the match is tried at each
  start position from the left. At a position the first group takes the longest run of
  owner characters (a shorter run is followed by an owner character, never by the slash);
  the match succeeds when that run is not empty, a slash follows it and a repo character
  follows the slash, and the second group is the longest run of repo characters there.
\<close>

fun repoMatch :: "string \<Rightarrow> (string \<times> string) option" where
  "repoMatch [] = None"
| "repoMatch (c # cs) =
     (let own = takeWhile ownerChar (c # cs);
          rest = dropWhile ownerChar (c # cs)
      in if own \<noteq> [] \<and> rest \<noteq> [] \<and> hd rest = CHR ''/''
            \<and> takeWhile repoChar (tl rest) \<noteq> []
         then Some (own, takeWhile repoChar (tl rest))
         else repoMatch cs)"

text \<open>
  \<^verbatim>\<open>s.replace(/^label:?\s*/i, "")\<close> for a lower-case \<open>label\<close>: when \<open>s\<close> starts with
  the label in any letter case, the label, one colon after it and the white space after
  that are removed.
\<close>

definition stripLabel :: "string \<Rightarrow> string \<Rightarrow> string" where
  "stripLabel label s =
     (if startsWith (toLowerCase s) label
      then (let r = drop (length label) s;
                r' = (case r of [] \<Rightarrow> r | c # cs \<Rightarrow> if c = CHR '':'' then cs else r)
            in dropWhile isSpace r')
      else s)"

text \<open>\<^verbatim>\<open>xs.find(pred)\<close>: the first element that satisfies the predicate.\<close>

definition find_first :: "('a \<Rightarrow> bool) \<Rightarrow> 'a list \<Rightarrow> 'a option" where
  "find_first P xs = (case filter P xs of [] \<Rightarrow> None | x # _ \<Rightarrow> Some x)"

section \<open>JavaScript numbers that need not be finite\<close>

text \<open>
  A quotient of two finite numbers need not be finite: \<^verbatim>\<open>x / 0\<close> is
  \<^verbatim>\<open>Infinity\<close>, \<^verbatim>\<open>-Infinity\<close> or \<^verbatim>\<open>NaN\<close>. The value of an
  expression that divides is therefore a \<open>jsnum\<close>, with the arithmetic of IEEE 754 on
  the three special values. Rounding is not represented, and there is one zero, the
  positive one (the remaining budget \<open>b - b\<close> is \<open>+0\<close>).
\<close>

datatype jsnum = Num real | PosInf | NegInf | NaN

text \<open>\<^verbatim>\<open>a / b\<close> for finite \<open>a\<close> and \<open>b\<close>.\<close>

definition js_div :: "real \<Rightarrow> real \<Rightarrow> jsnum" where
  "js_div a b =
     (if b \<noteq> 0 then Num (a / b)
      else if a > 0 then PosInf
      else if a < 0 then NegInf
      else NaN)"

fun js_neg :: "jsnum \<Rightarrow> jsnum" where
  "js_neg (Num a) = Num (- a)"
| "js_neg PosInf = NegInf"
| "js_neg NegInf = PosInf"
| "js_neg NaN = NaN"

fun js_add :: "jsnum \<Rightarrow> jsnum \<Rightarrow> jsnum" where
  "js_add NaN y = NaN"
| "js_add x NaN = NaN"
| "js_add (Num a) (Num b) = Num (a + b)"
| "js_add PosInf NegInf = NaN"
| "js_add NegInf PosInf = NaN"
| "js_add PosInf y = PosInf"
| "js_add x PosInf = PosInf"
| "js_add NegInf y = NegInf"
| "js_add x NegInf = NegInf"

definition js_sub :: "jsnum \<Rightarrow> jsnum \<Rightarrow> jsnum" where
  "js_sub x y = js_add x (js_neg y)"

text \<open>The product of an infinity of the given sign (\<open>True\<close> is positive) and a finite number.\<close>

definition js_inf_times :: "bool \<Rightarrow> real \<Rightarrow> jsnum" where
  "js_inf_times positive b =
     (if b = 0 then NaN
      else if (b > 0) = positive then PosInf
      else NegInf)"

fun js_mul :: "jsnum \<Rightarrow> jsnum \<Rightarrow> jsnum" where
  "js_mul NaN y = NaN"
| "js_mul x NaN = NaN"
| "js_mul (Num a) (Num b) = Num (a * b)"
| "js_mul PosInf (Num b) = js_inf_times True b"
| "js_mul NegInf (Num b) = js_inf_times False b"
| "js_mul (Num a) PosInf = js_inf_times True a"
| "js_mul (Num a) NegInf = js_inf_times False a"
| "js_mul PosInf PosInf = PosInf"
| "js_mul NegInf NegInf = PosInf"
| "js_mul PosInf NegInf = NegInf"
| "js_mul NegInf PosInf = NegInf"

text \<open>\<^verbatim>\<open>Math.max(x, y)\<close>.\<close>

fun js_max :: "jsnum \<Rightarrow> jsnum \<Rightarrow> jsnum" where
  "js_max NaN y = NaN"
| "js_max x NaN = NaN"
| "js_max PosInf y = PosInf"
| "js_max x PosInf = PosInf"
| "js_max NegInf y = y"
| "js_max x NegInf = x"
| "js_max (Num a) (Num b) = Num (max a b)"

text \<open>
  The number a record field of type \<open>real\<close> holds for a \<open>jsnum\<close>. A field holds finite
  numbers only, so a special value has no image; it is sent to 0.
\<close>

fun num_value :: "jsnum \<Rightarrow> real" where
  "num_value (Num a) = a"
| "num_value PosInf = 0"
| "num_value NegInf = 0"
| "num_value NaN = 0"

section \<open>Decision engine (decider.ts)\<close>

fun ACTION_PRIORITIES :: "ActionType \<Rightarrow> real" where
  "ACTION_PRIORITIES share_technique = 0.9"
| "ACTION_PRIORITIES study_repo = 0.85"
| "ACTION_PRIORITIES explore_topic = 0.75"
| "ACTION_PRIORITIES document = 0.6"
| "ACTION_PRIORITIES write_code = 0.4"
| "ACTION_PRIORITIES refactor = 0.3"
| "ACTION_PRIORITIES fix_issue = 0.05"
| "ACTION_PRIORITIES contribute_pr = 0.05"

fun TOKEN_ESTIMATES :: "ActionType \<Rightarrow> real" where
  "TOKEN_ESTIMATES explore_topic = 800"
| "TOKEN_ESTIMATES study_repo = 3000"
| "TOKEN_ESTIMATES fix_issue = 8000"
| "TOKEN_ESTIMATES write_code = 10000"
| "TOKEN_ESTIMATES refactor = 7000"
| "TOKEN_ESTIMATES document = 4000"
| "TOKEN_ESTIMATES share_technique = 1500"
| "TOKEN_ESTIMATES contribute_pr = 12000"

fun TIME_ESTIMATES :: "ActionType \<Rightarrow> real" where
  "TIME_ESTIMATES explore_topic = 5000"
| "TIME_ESTIMATES study_repo = 15000"
| "TIME_ESTIMATES fix_issue = 45000"
| "TIME_ESTIMATES write_code = 60000"
| "TIME_ESTIMATES refactor = 40000"
| "TIME_ESTIMATES document = 20000"
| "TIME_ESTIMATES share_technique = 8000"
| "TIME_ESTIMATES contribute_pr = 90000"

text \<open>\<^verbatim>\<open>x || d\<close> on numbers: \<open>d\<close> replaces a zero.\<close>

definition or_default :: "real \<Rightarrow> real \<Rightarrow> real" where
  "or_default x d = (if x = 0 then d else x)"

definition estimateCost :: "AgentAction \<Rightarrow> DecisionCost" where
  "estimateCost act =
     (let tokens = or_default (TOKEN_ESTIMATES (action_type act)) 5000;
          timeMs = or_default (TIME_ESTIMATES (action_type act)) 30000;
          risk1 = (if action_type act \<in> set [contribute_pr, write_code, fix_issue]
                   then medium else low);
          risk2 = (if action_type act = contribute_pr then high else risk1)
      in \<lparr>estimatedTokens = tokens, estimatedTimeMs = timeMs, riskLevel = risk2\<rparr>)"

text \<open>The fallback of the first branch of \<open>parseSuggestedAction\<close>: the first available issue.\<close>

definition firstIssueAction :: "GitHubIssue list \<Rightarrow> AgentAction option" where
  "firstIssueAction issues =
     (case issues of
        [] \<Rightarrow> None
      | issue # _ \<Rightarrow> Some (FixIssue (i_owner issue) (i_repo issue) (i_number issue)))"

definition firstRepoAction :: "GitHubRepo list \<Rightarrow> AgentAction option" where
  "firstRepoAction repos =
     (case repos of
        [] \<Rightarrow> None
      | r # _ \<Rightarrow> Some (StudyRepo (r_owner r) (r_repo r) None))"

definition parseSuggestedAction ::
  "string \<Rightarrow> GitHubRepo list \<Rightarrow> GitHubIssue list \<Rightarrow> AgentAction option" where
  "parseSuggestedAction suggestion repos issues =
     (let lower = toLowerCase suggestion in
      if startsWith lower ''fix_issue'' \<or> includes_str lower ''fix issue'' then
        (case issueMatch suggestion of
           Some ds \<Rightarrow>
             (if issues \<noteq> [] then
                (case find_first (\<lambda>i. i_number i = parseInt ds) issues of
                   Some issue \<Rightarrow>
                     Some (FixIssue (i_owner issue) (i_repo issue) (i_number issue))
                 | None \<Rightarrow> firstIssueAction issues)
              else firstIssueAction issues)
         | None \<Rightarrow> firstIssueAction issues)
      else if startsWith lower ''study'' \<or> includes_str lower ''study_repo'' then
        (case repoMatch suggestion of
           Some (ow, rp) \<Rightarrow> Some (StudyRepo ow rp None)
         | None \<Rightarrow> firstRepoAction repos)
      else if startsWith lower ''share_technique'' \<or> includes_str lower ''share'' then
        (let desc = stripLabel ''share_technique'' suggestion
         in Some (ShareTechnique (if desc = [] then ''engineering insight'' else desc) None))
      else if startsWith lower ''explore_topic'' \<or> includes_str lower ''explore'' then
        (let topic = stripLabel ''explore_topic'' suggestion
         in Some (ExploreTopic (if topic = [] then ''distributed systems'' else topic)))
      else if includes_str lower ''contribute'' \<or> includes_str lower ''pr''
              \<or> includes_str lower ''fix_issue'' \<or> includes_str lower ''fix issue'' then
        (case repoMatch suggestion of
           Some (ow, rp) \<Rightarrow>
             (case find_first (\<lambda>r. r_owner r = ow \<and> r_repo r = rp) repos of
                Some known \<Rightarrow> Some (StudyRepo (r_owner known) (r_repo known) None)
              | None \<Rightarrow> firstRepoAction repos)
         | None \<Rightarrow> firstRepoAction repos)
      else if includes_str lower ''refactor'' then
        (case repoMatch suggestion of
           Some (ow, rp) \<Rightarrow> Some (Refactor ow rp suggestion)
         | None \<Rightarrow> None)
      else if includes_str lower ''document'' then
        (case repoMatch suggestion of
           Some (ow, rp) \<Rightarrow> Some (Document ow rp suggestion)
         | None \<Rightarrow> None)
      else None)"

text \<open>
  \<open>scoreDecision\<close> divides by the remaining budget and by the token budget, so its value
  is a \<open>jsnum\<close>; the other signals are finite and enter the sum as they are. The sum
  is taken from the left, as the source writes it.
\<close>

definition scoreDecision ::
  "AgentDecision \<Rightarrow> AutonomousAgentState \<Rightarrow> PheromoneChannel \<Rightarrow> jsnum" where
  "scoreDecision decision state channel =
     (let act = action decision;
          pers = personality state;
          basePriority = or_default (ACTION_PRIORITIES (action_type act)) 0.5;
          priorityWeight = basePriority * 0.20;
          budgetRemaining = tokenBudget state - tokensUsed state;
          budgetRatio = js_div budgetRemaining (tokenBudget state);
          costRatio = js_div (estimatedTokens (cost decision)) budgetRemaining;
          costEfficiency = js_mul (js_max (Num 0) (js_sub (Num 1) costRatio)) (Num 0.25);
          recentDecisions = slice_last 10 (decisions state);
          recentTypes = set (map (\<lambda>d. action_type (action d)) recentDecisions);
          stalenessBonus = (if action_type act \<in> recentTypes then 0 else 0.15);
          riskMultiplier =
            (case riskLevel (cost decision) of low \<Rightarrow> 0 | medium \<Rightarrow> 0.1 | high \<Rightarrow> 0.2);
          riskPenalty =
            js_mul (js_neg (js_mul (Num riskMultiplier) (js_sub (Num 1) budgetRatio)))
              (Num 0.20);
          swarmAlignment =
            (if phaseTransitionOccurred channel \<and> action_type act \<noteq> explore_topic
             then 0.10 else 0);
          personalFit =
            (if action_type act = study_repo \<or> action_type act = explore_topic
               then curiosity pers * 0.10
             else if action_type act = fix_issue \<or> action_type act = contribute_pr
               then boldness pers * 0.10
             else if action_type act = share_technique
               then sociability pers * 0.10
             else if action_type act = refactor \<or> action_type act = document
               then diligence pers * 0.10
             else 0)
      in js_add (js_add (js_add (js_add (js_add (Num priorityWeight) costEfficiency)
                                   (Num stalenessBonus))
                           riskPenalty)
                   (Num swarmAlignment))
           (Num personalFit))"

text \<open>
  \<open>generateCandidateDecisions\<close> calls \<^verbatim>\<open>uuid()\<close> and \<^verbatim>\<open>Date.now()\<close> once for
  each candidate it pushes; \<open>uuid k\<close> and \<open>now k\<close> are what the calls for the candidate
  pushed at index \<open>k\<close> return.
\<close>

definition push_candidate ::
  "(nat \<Rightarrow> string) \<Rightarrow> (nat \<Rightarrow> nat) \<Rightarrow> AutonomousAgentState \<Rightarrow> AgentAction
     \<Rightarrow> DecisionCost \<Rightarrow> AgentDecision list \<Rightarrow> AgentDecision list" where
  "push_candidate uuid now state act c candidates =
     candidates @
       [\<lparr>d_id = uuid (length candidates), d_agentId = a_id state, action = act,
         priority = 0, cost = c, d_status = pending, result = None,
         d_createdAt = now (length candidates), completedAt = None\<rparr>]"

text \<open>The body of the inner loop over a thought's suggested actions.\<close>

definition fromSuggestion ::
  "(nat \<Rightarrow> string) \<Rightarrow> (nat \<Rightarrow> nat) \<Rightarrow> AutonomousAgentState \<Rightarrow> GitHubRepo list
     \<Rightarrow> GitHubIssue list \<Rightarrow> real \<Rightarrow> AgentDecision list \<Rightarrow> string \<Rightarrow> AgentDecision list" where
  "fromSuggestion uuid now state repos issues budgetRemaining candidates suggestion =
     (case parseSuggestedAction suggestion repos issues of
        None \<Rightarrow> candidates
      | Some act \<Rightarrow>
          (let c = estimateCost act in
           if estimatedTokens c > budgetRemaining then candidates
           else push_candidate uuid now state act c candidates))"

definition fromThoughts ::
  "(nat \<Rightarrow> string) \<Rightarrow> (nat \<Rightarrow> nat) \<Rightarrow> AutonomousAgentState \<Rightarrow> GitHubRepo list
     \<Rightarrow> GitHubIssue list \<Rightarrow> real \<Rightarrow> AgentThought list \<Rightarrow> AgentDecision list
     \<Rightarrow> AgentDecision list" where
  "fromThoughts uuid now state repos issues budgetRemaining ths candidates =
     foldl (\<lambda>cs thought.
              foldl (fromSuggestion uuid now state repos issues budgetRemaining) cs
                (suggestedActions thought))
       candidates (slice_last 5 ths)"

text \<open>The body of the loop over the first three repositories.\<close>

definition fromRepo ::
  "(nat \<Rightarrow> string) \<Rightarrow> (nat \<Rightarrow> nat) \<Rightarrow> AutonomousAgentState \<Rightarrow> real
     \<Rightarrow> AgentDecision list \<Rightarrow> GitHubRepo \<Rightarrow> AgentDecision list" where
  "fromRepo uuid now state budgetRemaining candidates repo =
     (if r_owner repo @ ''/'' @ r_repo repo \<in> set (reposStudied state) then candidates
      else (let act = StudyRepo (r_owner repo) (r_repo repo) None;
                c = estimateCost act in
            if estimatedTokens c > budgetRemaining then candidates
            else push_candidate uuid now state act c candidates))"

definition fromPheromones ::
  "(nat \<Rightarrow> string) \<Rightarrow> (nat \<Rightarrow> nat) \<Rightarrow> AutonomousAgentState \<Rightarrow> PheromoneChannel \<Rightarrow> real
     \<Rightarrow> AgentDecision list \<Rightarrow> AgentDecision list" where
  "fromPheromones uuid now state channel budgetRemaining candidates =
     (if length (pheromones channel) > 5 \<and> sociability (personality state) > 0.5 then
        (let act = ShareTechnique (''Cross-domain synthesis from '' @ specialization state) None;
             c = estimateCost act in
         if estimatedTokens c \<le> budgetRemaining
         then push_candidate uuid now state act c candidates
         else candidates)
      else candidates)"

definition fallbackExplore ::
  "(nat \<Rightarrow> string) \<Rightarrow> (nat \<Rightarrow> nat) \<Rightarrow> AutonomousAgentState \<Rightarrow> real
     \<Rightarrow> AgentDecision list \<Rightarrow> AgentDecision list" where
  "fallbackExplore uuid now state budgetRemaining candidates =
     (let act = ExploreTopic (specialization state);
          c = estimateCost act in
      if estimatedTokens c \<le> budgetRemaining
      then push_candidate uuid now state act c candidates
      else candidates)"

text \<open>
  The candidates in the order the four sources push them, before they are scored and
  sorted.
\<close>

definition collectCandidates ::
  "(nat \<Rightarrow> string) \<Rightarrow> (nat \<Rightarrow> nat) \<Rightarrow> AutonomousAgentState \<Rightarrow> PheromoneChannel
     \<Rightarrow> GitHubRepo list \<Rightarrow> GitHubIssue list \<Rightarrow> AgentThought list \<Rightarrow> AgentDecision list" where
  "collectCandidates uuid now state channel repos issues ths =
     (let budgetRemaining = tokenBudget state - tokensUsed state;
          c1 = fromThoughts uuid now state repos issues budgetRemaining ths [];
          c2 = foldl (fromRepo uuid now state budgetRemaining) c1 (take 3 repos);
          c3 = fromPheromones uuid now state channel budgetRemaining c2
      in fallbackExplore uuid now state budgetRemaining c3)"

text \<open>
  Every candidate is scored after it passed the budget filter, so the remaining budget is
  at least the smallest estimate, 800, when \<open>scoreDecision\<close> divides by it; the score is
  finite unless the token budget is zero, which then takes a negative \<open>tokensUsed\<close>.
  \<^verbatim>\<open>candidates.sort((a, b) => b.priority - a.priority)\<close> is a stable sort into
  non-increasing priority, as \<open>sort_key\<close> on the negated priority is.
\<close>

definition generateCandidateDecisions ::
  "(nat \<Rightarrow> string) \<Rightarrow> (nat \<Rightarrow> nat) \<Rightarrow> AutonomousAgentState \<Rightarrow> PheromoneChannel
     \<Rightarrow> GitHubRepo list \<Rightarrow> GitHubIssue list \<Rightarrow> AgentThought list \<Rightarrow> AgentDecision list" where
  "generateCandidateDecisions uuid now state channel repos issues ths =
     sort_key (\<lambda>d. - priority d)
       (map (\<lambda>c. c\<lparr>priority := num_value (scoreDecision c state channel)\<rparr>)
          (collectCandidates uuid now state channel repos issues ths))"



text \<open>
  \<open>shouldSwitch state lastResult rnd\<close>, where \<open>rnd\<close> is what \<^verbatim>\<open>Math.random()\<close>
  returns when a branch calls it.
\<close>

definition shouldSwitch ::
  "AutonomousAgentState \<Rightarrow> DecisionResult option \<Rightarrow> real \<Rightarrow> bool" where
  "shouldSwitch state lastResult rnd =
     (if (case lastResult of None \<Rightarrow> False | Some r \<Rightarrow> success r) then rnd < 0.3
      else if (case lastResult of None \<Rightarrow> False | Some r \<Rightarrow> \<not> success r) then rnd < 0.7
      else if currentDecision state = None then True
      else if tokensUsed state \<ge> tokenBudget state then True
      else False)"

section \<open>Collaboration detector (decider.ts)\<close>

definition digitChar :: "nat \<Rightarrow> char" where
  "digitChar d = ''0123456789'' ! d"

text \<open>A non-negative integer in a template string: its decimal digits.\<close>

fun showNat :: "nat \<Rightarrow> string" where
  "showNat n = (if n < 10 then [digitChar n] else showNat (n div 10) @ [digitChar (n mod 10)])"

declare showNat.simps [simp del]

fun join :: "string \<Rightarrow> string list \<Rightarrow> string" where
  "join sep [] = []"
| "join sep [x] = x"
| "join sep (x # y # ys) = x @ sep @ join sep (y # ys)"


text \<open>
  \<^verbatim>\<open>"owner" in action && "repo" in action\<close> holds for the five variants that carry
  both fields; the key is \<^verbatim>\<open>`${action.owner}/${action.repo}`\<close>.
\<close>

fun repoKeyOf :: "AgentAction \<Rightarrow> string option" where
  "repoKeyOf (StudyRepo ow rp _) = Some (ow @ ''/'' @ rp)"
| "repoKeyOf (FixIssue ow rp _) = Some (ow @ ''/'' @ rp)"
| "repoKeyOf (Refactor ow rp _) = Some (ow @ ''/'' @ rp)"
| "repoKeyOf (Document ow rp _) = Some (ow @ ''/'' @ rp)"
| "repoKeyOf (ContributePr ow rp _) = Some (ow @ ''/'' @ rp)"
| "repoKeyOf (WriteCode _ _) = None"
| "repoKeyOf (ShareTechnique _ _) = None"
| "repoKeyOf (ExploreTopic _) = None"




section \<open>Agent state machine (agent.ts)\<close>

text \<open>
  \<open>checkSync\<close> mutates the agent's state; the model returns the new state. The line it
  writes to the console is not part of the state.
\<close>

definition checkSync :: "AutonomousAgentState \<Rightarrow> PheromoneChannel \<Rightarrow> AutonomousAgentState" where
  "checkSync state channel =
     (if synchronized state then state
      else if density channel \<ge> criticalThreshold channel
              \<and> fcard (absorbed state) \<ge> 3
              \<and> energy state > 0.5
           then state\<lparr>energy := 1.0, synchronized := True\<rparr>
           else state)"

text \<open>
  The body of the loop of \<open>absorbPheromones\<close>. The loop state is the agent's state, the
  number \<open>k\<close> of calls of \<^verbatim>\<open>Math.random()\<close> made so far (\<open>rnd k\<close> is what the next
  call returns), the array of absorbed pheromones, and the channel's pheromones visited so
  far, as the loop leaves them. A pheromone is boosted in place after it is pushed, so the
  returned array and the channel both hold the boosted object.
\<close>

definition absorbOne ::
  "(nat \<Rightarrow> real) \<Rightarrow> AutonomousAgentState \<times> nat \<times> Pheromone list \<times> Pheromone list \<Rightarrow> Pheromone
     \<Rightarrow> AutonomousAgentState \<times> nat \<times> Pheromone list \<times> Pheromone list" where
  "absorbOne rnd acc p =
     (case acc of (state, k, absorbedList, visited) \<Rightarrow>
        if p_agentId p = a_id state then (state, k, absorbedList, visited @ [p])
        else if p_id p |\<in>| absorbed state then (state, k, absorbedList, visited @ [p])
        else if strength p > 0.2 then
          (if rnd k < strength p * 0.6 then
             (let p' = p\<lparr>strength := min 1.0 (strength p + 0.1)\<rparr> in
              (state\<lparr>absorbed := finsert (p_id p) (absorbed state),
                     energy := min 1.0 (energy state + 0.05)\<rparr>,
               Suc k, absorbedList @ [p'], visited @ [p']))
           else (state, Suc k, absorbedList, visited @ [p]))
        else (state, k, absorbedList, visited @ [p]))"

text \<open>
  \<open>absorbPheromones rnd state channel\<close> returns the agent's new state, the channel with
  the boosted pheromones, and the array the method returns.
\<close>

definition absorbPheromones ::
  "(nat \<Rightarrow> real) \<Rightarrow> AutonomousAgentState \<Rightarrow> PheromoneChannel
     \<Rightarrow> AutonomousAgentState \<times> PheromoneChannel \<times> Pheromone list" where
  "absorbPheromones rnd state channel =
     (case foldl (absorbOne rnd) (state, 0, [], []) (pheromones channel) of
        (state', k, absorbedList, visited) \<Rightarrow>
          (state', channel\<lparr>pheromones := visited\<rparr>, absorbedList))"

definition has_artifact :: "string \<Rightarrow> Artifact list \<Rightarrow> bool" where
  "has_artifact ty arts = (filter (\<lambda>a. art_type a = ty) arts \<noteq> [])"

text \<open>
  \<open>createEngineeringPheromone uuid now1 now2 hash state decision result\<close> returns the
  agent's new state and the pheromone. \<open>uuid\<close> is what \<^verbatim>\<open>uuid()\<close> returns, \<open>now1\<close>
  and \<open>now2\<close> what the two calls of \<^verbatim>\<open>Date.now()\<close> return (for the timestamp and
  inside the attestation), and \<open>hash\<close> is the SHA-256 helper of types.ts.
\<close>

definition createEngineeringPheromone ::
  "string \<Rightarrow> nat \<Rightarrow> nat \<Rightarrow> (string \<Rightarrow> string) \<Rightarrow> AutonomousAgentState \<Rightarrow> AgentDecision
     \<Rightarrow> DecisionResult \<Rightarrow> AutonomousAgentState \<times> Pheromone" where
  "createEngineeringPheromone uuid now1 now2 hash state decision res =
     (let hasCode = has_artifact ''code_change'' (res_artifacts res);
          hasPR = has_artifact ''pr_url'' (res_artifacts res);
          phType = (if hasPR then ''pr''
                    else if hasCode then ''code''
                    else if has_artifact ''technique'' (res_artifacts res) then ''technique''
                    else ''knowledge'');
          refs = (case repoKeyOf (action decision) of Some key \<Rightarrow> [key] | None \<Rightarrow> []);
          pheromone =
            \<lparr>p_id = uuid,
             p_agentId = a_id state,
             content = summary res,
             domain = explorationTarget state,
             confidence = priority decision,
             strength = 0.6 + priority decision * 0.3,
             connections = [],
             timestamp = now1,
             attestation = hash (summary res @ a_id state @ showNat now2),
             engineering = Some
               \<lparr>pheromoneType = phType,
                artifacts = map (\<lambda>a. \<lparr>art_type = art_type a, art_content = art_content a,
                                       filePath = None, prUrl = prUrl a\<rparr>) (res_artifacts res),
                githubRefs = refs,
                codeSnippets = map (\<lambda>a. take 200 (art_content a))
                                 (filter (\<lambda>a. art_type a = ''code_change'') (res_artifacts res))\<rparr>\<rparr>
      in (state\<lparr>knowledge := knowledge state @ [pheromone],
                discoveries := discoveries state + 1\<rparr>,
          pheromone))"

text \<open>
  The personality of a new agent. \<open>generatePersonality index rnd\<close> returns the
  specialization and the personality; \<open>rnd k\<close> is what the call of \<^verbatim>\<open>Math.random()\<close>
  inside the \<open>k\<close>-th call of \<open>perturb\<close> returns. The constructor stores the result, and
  nothing writes the personality afterwards.
\<close>

definition PERSONALITY_PRESETS :: "(string \<times> AgentPersonality) list" where
  "PERSONALITY_PRESETS =
     [(''Explorer'',
       \<lparr>curiosity = 0.9, diligence = 0.4, boldness = 0.3, sociability = 0.6\<rparr>),
      (''Synthesizer'',
       \<lparr>curiosity = 0.7, diligence = 0.5, boldness = 0.4, sociability = 0.9\<rparr>),
      (''Builder'',
       \<lparr>curiosity = 0.5, diligence = 0.6, boldness = 0.9, sociability = 0.3\<rparr>)]"

definition perturb :: "real \<Rightarrow> real" where
  "perturb r = max 0 (min 1 ((r - 0.5) * 0.1))"

definition generatePersonality :: "nat \<Rightarrow> (nat \<Rightarrow> real) \<Rightarrow> string \<times> AgentPersonality" where
  "generatePersonality index rnd =
     (case PERSONALITY_PRESETS ! (index mod length PERSONALITY_PRESETS) of
        (name, preset) \<Rightarrow>
          (name,
           \<lparr>curiosity = max 0 (min 1 (curiosity preset + perturb (rnd 0))),
            diligence = max 0 (min 1 (diligence preset + perturb (rnd 1))),
            boldness = max 0 (min 1 (boldness preset + perturb (rnd 2))),
            sociability = max 0 (min 1 (sociability preset + perturb (rnd 3)))\<rparr>))"

text \<open>
  Texts outside ASCII are written as their UTF-8 bytes: the dash U+2014 and the star
  U+2605 of the content templates.
\<close>

definition em_dash :: string where
  "em_dash = [CHR 0xE2, CHR 0x80, CHR 0x94]"

definition star :: string where
  "star = [CHR 0xE2, CHR 0x98, CHR 0x85]"

text \<open>The table \<open>insights\<close> of \<open>fallbackInsight\<close>: three texts for each domain.\<close>

definition insight_pools :: "(string \<times> string list) list" where
  "insight_pools =
     [(''data structures and algorithms'',
       [''Combining skip lists with bloom filters creates a probabilistic data structure that offers O(log n) search with O(1) membership testing '' @ em_dash @ '' useful for distributed caches.'',
        ''Applying the van Emde Boas tree layout to the discovered B-tree variant could reduce cache misses by 40% on modern CPUs with large L3 caches.'',
        ''Persistent data structures using path copying can be made lock-free by combining with the discovered CAS-based approach, enabling wait-free snapshots.'']),
      (''distributed systems architecture'',
       [''The discovered consensus optimization maps to a lattice structure '' @ em_dash @ '' CRDT-style merge functions could eliminate coordination overhead entirely for monotonic state.'',
        ''Applying epidemic/gossip protocols to this discovery suggests that O(log n) rounds suffice for cluster-wide consistency with high probability.'',
        ''Vector clocks can be compressed using this insight '' @ em_dash @ '' interval tree clocks reduce metadata from O(n) to O(1) for causality tracking.'']),
      (''cryptographic primitives'',
       [''This hash construction is structurally similar to a sponge function '' @ em_dash @ '' wrapping it in a duplex construction would yield an authenticated encryption scheme.'',
        ''Combining this with Merkle mountain ranges yields an append-only commitment scheme with O(log n) proof size and O(1) amortized append.'',
        ''The algebraic structure here maps to pairing-based cryptography '' @ em_dash @ '' BLS signatures could be aggregated using this as a base, saving 90% bandwidth.'']),
      (''network protocols and security'',
       [''Applying QUIC's 0-RTT handshake pattern to this discovery eliminates one round-trip for authenticated channel establishment in mesh networks.'',
        ''This TCP optimization can be generalized using eBPF '' @ em_dash @ '' kernel-bypass packet processing achieves 10M pps on commodity hardware.'',
        ''Combining Wireguard's Noise framework with this insight creates a post-quantum secure tunnel with only 1 additional RTT.'']),
      (''database optimization patterns'',
       [''LSM-tree compaction can leverage this by using fractional cascading between levels, reducing read amplification from O(L) to O(log L).'',
        ''Applying learned indexes to this B-tree variant reduces storage overhead by 60% while maintaining worst-case O(log n) lookup guarantees.'',
        ''Zone maps combined with this insight enable predicate pushdown that skips 95% of irrelevant pages in columnar storage.'']),
      (''compiler design techniques'',
       [''This optimization pass is equivalent to partial evaluation '' @ em_dash @ '' applying it at the SSA level yields 2-3x speedup for loop-heavy code.'',
        ''Polyhedral compilation can model this loop transformation, enabling automatic GPU offloading with provable correctness guarantees.'',
        ''Combining this with profile-guided optimization turns speculative devirtualization from 60% hit rate to 95%.'']),
      (''consensus mechanisms'',
       [''This leader election approach maps to a verifiable random function '' @ em_dash @ '' combining with threshold signatures yields asynchronous consensus in O(1) expected rounds.'',
        ''DAG-based consensus can absorb this optimization to achieve 100k+ TPS by parallelizing block proposal and vote collection.'',
        ''Applying HotStuff's pipelining to this protocol reduces latency from 3 round-trips to 1 for the common case.'']),
      (''operating system internals'',
       [''This scheduling insight applies to io_uring '' @ em_dash @ '' adaptive polling with this heuristic reduces syscall overhead by 70% for mixed workloads.'',
        ''Combining huge pages with this memory mapping approach eliminates TLB thrashing for workloads exceeding 256GB working set.'',
        ''The discovered preemption pattern is equivalent to cooperative scheduling with deadlines '' @ em_dash @ '' provably prevents priority inversion.'']),
      (''machine learning optimization'',
       [''This gradient technique maps to Lion optimizer '' @ em_dash @ '' combining momentum with sign-based updates yields 2x memory savings vs Adam.'',
        ''Applying mixture of experts routing to this layer structure achieves 90% of dense model quality with 10% of compute per token.'',
        ''Flash attention's tiling strategy combined with this insight reduces KV-cache memory from O(n^2) to O(n*sqrt(n)).'']),
      (''memory management strategies'',
       [''Slab allocation with this size-class heuristic reduces internal fragmentation from 25% to under 3% for real-world allocation patterns.'',
        ''Combining jemalloc's arena approach with this thread-local insight eliminates lock contention entirely for allocations under 4KB.'',
        ''This discovery maps to region-based memory management '' @ em_dash @ '' scoped arenas with deferred cleanup achieve zero-overhead RAII.''])]"

text \<open>The table \<open>discoveries\<close> of \<open>fallbackDiscovery\<close>.\<close>

definition discovery_pools :: "(string \<times> string list) list" where
  "discovery_pools =
     [(''data structures and algorithms'',
       [''A cache-oblivious B-tree using van Emde Boas layout achieves optimal I/O complexity without knowing the memory hierarchy parameters.'',
        ''Finger trees with monoid annotations enable O(log n) split and merge while supporting any associative summary operation.'',
        ''Cuckoo hashing with a stash of O(log log n) elements achieves O(1) worst-case lookup with 95% load factor.'']),
      (''distributed systems architecture'',
       [''Raft's leader lease optimization allows linearizable reads without log replication, reducing read latency to a single local disk seek.'',
        ''Virtual synchrony with optimistic delivery reorders messages for throughput while preserving causal consistency guarantees.'',
        ''CRDTs over delta-state propagation reduce bandwidth by 100x compared to state-based CRDTs in sparse update patterns.'']),
      (''cryptographic primitives'',
       [''Poseidon hash function designed for arithmetic circuits achieves 8x fewer constraints than Pedersen hash in ZK-SNARK proofs.'',
        ''Verkle trees using inner product arguments reduce witness size from O(k*log n) to O(log n) compared to Merkle trees with branching factor k.'',
        ''Bulletproofs+ achieve 15% smaller proofs than original Bulletproofs by exploiting the algebraic structure of the inner product relation.'']),
      (''network protocols and security'',
       [''DPDK with RSS hashing enables 100Gbps line-rate packet processing using 8 CPU cores with zero kernel involvement.'',
        ''BBRv3 congestion control achieves 2x throughput over CUBIC on networks with 1% random packet loss.'',
        ''DNS-over-QUIC reduces resolution latency to 0-RTT for repeat queries while providing full encryption and authentication.'']),
      (''database optimization patterns'',
       [''Adaptive radix trees compress sparse key spaces from 256-way nodes to 4/16/48/256 variants, reducing memory by 85%.'',
        ''Buffer pool anti-caching with SSD-backed eviction extends effective memory by 10x with only 5% performance overhead.'',
        ''Morsel-driven parallelism automatically adapts query execution to NUMA topology, achieving linear scaling to 64 cores.'']),
      (''compiler design techniques'',
       [''Sea of nodes IR eliminates the CFG/SSA duality, enabling constant-time node replacement and O(n) global value numbering.'',
        ''Superword level parallelism (SLP) vectorization discovers SIMD opportunities that traditional loop vectorization misses in straight-line code.'',
        ''Live range splitting based on loop nesting depth reduces register pressure by 30% compared to linear scan allocation.'']),
      (''consensus mechanisms'',
       [''Narwhal mempool decouples data availability from consensus ordering, achieving 160k TPS by parallelizing block dissemination.'',
        ''Tendermint's lock-change mechanism prevents equivocation with only 2 message delays in the common case.'',
        ''Avalanche's metastable consensus achieves finality in 1-2 seconds with subsampled voting among 1000+ validators.'']),
      (''operating system internals'',
       [''io_uring's submission queue batching amortizes syscall overhead '' @ em_dash @ '' a single syscall can dispatch 256 I/O operations.'',
        ''eBPF JIT compilation executes sandboxed programs at near-native speed inside the kernel, enabling 10M events/sec tracing.'',
        ''KPTI shadow page tables isolate kernel memory from userspace with only 0.3% overhead on modern CPUs with PCID support.'']),
      (''machine learning optimization'',
       [''Ring attention distributes attention computation across devices by chunking the KV-cache, enabling million-token context with linear memory scaling.'',
        ''Quantization-aware training with GPTQ achieves 4-bit weights with less than 1% quality loss on LLM benchmarks.'',
        ''Speculative decoding with a small draft model achieves 2-3x generation speedup without any quality degradation.'']),
      (''memory management strategies'',
       [''Thread-caching malloc (tcmalloc) keeps per-thread free lists for common sizes, eliminating lock contention for 99% of allocations.'',
        ''Transparent huge pages with khugepaged merging reduce TLB misses by 80% for heap-heavy applications without code changes.'',
        ''Hazard pointers enable lock-free memory reclamation with O(N) space overhead where N is the number of threads.''])]"

text \<open>
  \<^verbatim>\<open>xs[i]\<close> for an index computed with \<^verbatim>\<open>Math.floor\<close>; \<open>None\<close> is
  \<^verbatim>\<open>undefined\<close>.
\<close>

definition js_index :: "'a list \<Rightarrow> int \<Rightarrow> 'a option" where
  "js_index xs i = (if 0 \<le> i \<and> i < int (length xs) then Some (xs ! nat i) else None)"

text \<open>
  \<^verbatim>\<open>table[key] || table["data structures and algorithms"]\<close>, and the text at the index
  \<^verbatim>\<open>Math.floor(r * pool.length)\<close> of the pool. Each pool has three texts, so a draw
  within \<open>[0, 1)\<close> finds one; past the pool JavaScript reads \<^verbatim>\<open>undefined\<close>, shown
  here as the text its concatenations give.
\<close>

definition pool_of :: "(string \<times> string list) list \<Rightarrow> string \<Rightarrow> string list" where
  "pool_of table key =
     (case map_of table key of
        Some pool \<Rightarrow> pool
      | None \<Rightarrow>
          (case map_of table ''data structures and algorithms'' of
             Some pool \<Rightarrow> pool
           | None \<Rightarrow> []))"

definition pick_text :: "real \<Rightarrow> string list \<Rightarrow> string" where
  "pick_text r pool =
     (case js_index pool \<lfloor>r * real (length pool)\<rfloor> of
        Some text \<Rightarrow> text
      | None \<Rightarrow> ''undefined'')"

definition fallbackInsight :: "real \<Rightarrow> Pheromone \<Rightarrow> string" where
  "fallbackInsight r source = pick_text r (pool_of insight_pools (domain source))"

definition fallbackDiscovery :: "real \<Rightarrow> AutonomousAgentState \<Rightarrow> string" where
  "fallbackDiscovery r state = pick_text r (pool_of discovery_pools (explorationTarget state))"

text \<open>\<^verbatim>\<open>s.split(",")\<close> and the like: the parts between the separator characters.\<close>

fun split_on :: "(char \<Rightarrow> bool) \<Rightarrow> string \<Rightarrow> string list" where
  "split_on sep [] = [[]]"
| "split_on sep (c # cs) =
     (if sep c then [] # split_on sep cs
      else (case split_on sep cs of
              [] \<Rightarrow> [[c]]
            | w # ws \<Rightarrow> (c # w) # ws))"

text \<open>
  \<^verbatim>\<open>s.split(/\s+/)\<close>: a run of white space separates once, so of the empty parts
  between single white-space characters only a leading and a trailing one remain.
\<close>

definition split_ws :: "string \<Rightarrow> string list" where
  "split_ws s =
     (case split_on isSpace s of
        [] \<Rightarrow> []
      | [w] \<Rightarrow> [w]
      | w # ws \<Rightarrow> w # filter (\<lambda>x. x \<noteq> []) (butlast ws) @ [last ws])"

text \<open>The private array \<open>discoveredRepos\<close> with a repository added unless it is known.\<close>

definition remember_repo :: "GitHubRepo list \<Rightarrow> GitHubRepo \<Rightarrow> GitHubRepo list" where
  "remember_repo discoveredRepos repo =
     (if filter (\<lambda>r. r_owner r = r_owner repo \<and> r_repo r = r_repo repo) discoveredRepos \<noteq> []
      then discoveredRepos
      else discoveredRepos @ [repo])"

text \<open>
  The end of \<open>explore\<close>: the pheromone is built, pushed onto the agent's knowledge and
  returned. \<open>uuid\<close>, \<open>now1\<close>, \<open>now2\<close> and \<open>hash\<close> are as for
  \<open>createEngineeringPheromone\<close>.
\<close>

definition emit_pheromone ::
  "string \<Rightarrow> nat \<Rightarrow> nat \<Rightarrow> (string \<Rightarrow> string) \<Rightarrow> AutonomousAgentState \<Rightarrow> string \<Rightarrow> string
     \<Rightarrow> real \<Rightarrow> string list \<Rightarrow> AutonomousAgentState \<times> Pheromone" where
  "emit_pheromone uuid now1 now2 hash state text domain0 conf conns =
     (let pheromone =
            \<lparr>p_id = uuid,
             p_agentId = a_id state,
             content = text,
             domain = domain0,
             confidence = conf,
             strength = 0.5 + conf * 0.3,
             connections = conns,
             timestamp = now1,
             attestation = hash (text @ a_id state @ showNat now2),
             engineering = None\<rparr>
      in (state\<lparr>knowledge := knowledge state @ [pheromone],
                discoveries := discoveries state + 1\<rparr>,
          pheromone))"

text \<open>
  What a call of \<open>explore\<close> does: it returns \<^verbatim>\<open>null\<close> or a pheromone, with the
  agent's state and \<open>discoveredRepos\<close> as it leaves them, or it throws a
  \<^verbatim>\<open>TypeError\<close> on reading a field of \<^verbatim>\<open>undefined\<close>.
\<close>

datatype ExploreResult =
    Thrown AutonomousAgentState "GitHubRepo list"
  | Returned AutonomousAgentState "GitHubRepo list" "Pheromone option"

text \<open>
  \<open>explore rnd discover envTopics uuid now1 now2 hash state discoveredRepos absorbedList\<close>.
  \<open>rnd k\<close> is what the \<open>k\<close>-th call of \<^verbatim>\<open>Math.random()\<close> returns, counted from 0;
  the call in the test \<^verbatim>\<open>absorbed.length > 0 && Math.random() < 0.6\<close> is only made
  when something was absorbed, and each of the two fallback helpers makes one call.
  \<open>discover query limit minStars\<close> is what \<open>discoverRepos\<close> returns (it runs the
  \<^verbatim>\<open>gh\<close> command line), and \<open>envTopics\<close> is the environment variable
  \<^verbatim>\<open>GITHUB_DISCOVERY_TOPICS\<close>.
\<close>

definition explore ::
  "(nat \<Rightarrow> real) \<Rightarrow> (string option \<Rightarrow> nat \<Rightarrow> nat option \<Rightarrow> GitHubRepo list) \<Rightarrow> string option
     \<Rightarrow> string \<Rightarrow> nat \<Rightarrow> nat \<Rightarrow> (string \<Rightarrow> string)
     \<Rightarrow> AutonomousAgentState \<Rightarrow> GitHubRepo list \<Rightarrow> Pheromone list \<Rightarrow> ExploreResult" where
  "explore rnd discover envTopics uuid now1 now2 hash state0 discoveredRepos absorbedList =
     (let state = state0\<lparr>currentAction := ''exploring github''\<rparr>;
          discoveryChance = (if synchronized state then 0.7 else 0.4)
      in
      if rnd 0 > discoveryChance then Returned state discoveredRepos None
      else if absorbedList \<noteq> [] \<and> rnd 1 < 0.6 then
        (case js_index absorbedList \<lfloor>rnd 2 * real (length absorbedList)\<rfloor> of
           None \<Rightarrow> Thrown state discoveredRepos
         | Some source \<Rightarrow>
             (let connections = [p_id source];
                  conf = min 1.0 (confidence source + 0.1);
                  domain0 = domain source;
                  keywords = take 3 (filter (\<lambda>w. length w > 4) (split_ws (content source)));
                  joined = join '' '' keywords;
                  searchTerm = (if joined = [] then explorationTarget state else joined);
                  repos = discover (Some searchTerm) 3 None;
                  found = (case repos of
                             repo # _ \<Rightarrow>
                               (remember_repo discoveredRepos repo,
                                ''github:'' @ r_owner repo @ ''/'' @ r_repo repo @ '' ''
                                  @ em_dash @ '' '' @ r_description repo)
                           | [] \<Rightarrow> (discoveredRepos, fallbackInsight (rnd 3) source));
                  state1 = (if strength source > 0.6
                            then state\<lparr>explorationTarget := domain source\<rparr>
                            else state)
              in case emit_pheromone uuid now1 now2 hash state1 (snd found) domain0 conf connections of
                   (state2, pheromone) \<Rightarrow> Returned state2 (fst found) (Some pheromone)))
      else
        (let k = (if absorbedList \<noteq> [] then 2 else 1);
             discoveryTopics =
               split_on (\<lambda>c. c = CHR '','')
                 (case envTopics of
                    None \<Rightarrow> ''typescript,rust,ai''
                  | Some t \<Rightarrow> if t = [] then ''typescript,rust,ai'' else t);
             topic = js_index discoveryTopics \<lfloor>rnd k * real (length discoveryTopics)\<rfloor>;
             repos = discover topic 5 (Some 10);
             conf = 0.4 + rnd (k + 1) * 0.4
         in
         if repos \<noteq> [] then
           (case js_index repos \<lfloor>rnd (k + 2) * real (length repos)\<rfloor> of
              None \<Rightarrow> Thrown state discoveredRepos
            | Some repo \<Rightarrow>
                (case emit_pheromone uuid now1 now2 hash state
                        (''github:'' @ r_owner repo @ ''/'' @ r_repo repo @ '' (''
                           @ showNat (stars repo) @ star @ '' '' @ language repo @ '') ''
                           @ em_dash @ '' '' @ r_description repo)
                        (explorationTarget state) conf [] of
                   (state2, pheromone) \<Rightarrow>
                     Returned state2 (remember_repo discoveredRepos repo) (Some pheromone)))
         else
           (case emit_pheromone uuid now1 now2 hash state
                   (fallbackDiscovery (rnd (k + 2)) state)
                   (explorationTarget state) (0.3 + rnd (k + 3) * 0.4) [] of
              (state2, pheromone) \<Rightarrow> Returned state2 discoveredRepos (Some pheromone))))"

section \<open>Definitions that follow the specification's words\<close>

text \<open>
  The personality trait the specification names for an action kind: curiosity for study and
  explore, boldness for fix and contribute, sociability for share, diligence for refactor
  and document. It names none for \<open>write_code\<close>, which contributes nothing.
\<close>

definition relevant_trait :: "ActionType \<Rightarrow> AgentPersonality \<Rightarrow> real" where
  "relevant_trait kind pers =
     (case kind of
        study_repo \<Rightarrow> curiosity pers
      | explore_topic \<Rightarrow> curiosity pers
      | fix_issue \<Rightarrow> boldness pers
      | contribute_pr \<Rightarrow> boldness pers
      | share_technique \<Rightarrow> sociability pers
      | refactor \<Rightarrow> diligence pers
      | document \<Rightarrow> diligence pers
      | write_code \<Rightarrow> 0)"

text \<open>The specification's risk multiplier: 0, 0.1 and 0.2 by risk level.\<close>

fun risk_multiplier :: "RiskLevel \<Rightarrow> real" where
  "risk_multiplier low = 0"
| "risk_multiplier medium = 0.1"
| "risk_multiplier high = 0.2"






text \<open>
  A candidate list is affordable for a remaining budget when every candidate carries the
  estimate of its own action and that estimate does not exceed the budget. It is the
  invariant of the four loops of \<open>generateCandidateDecisions\<close>.
\<close>

definition affordable :: "real \<Rightarrow> AgentDecision list \<Rightarrow> bool" where
  "affordable budgetRemaining cs =
     list_all (\<lambda>d. cost d = estimateCost (action d)
                    \<and> estimatedTokens (cost d) \<le> budgetRemaining) cs"




text \<open>
  Two further loop invariants: no candidate of the list is a \<open>contribute_pr\<close> or a
  \<open>write_code\<close> action, and a pheromone's strength and confidence lie in the unit
  interval.
\<close>

definition offered :: "AgentDecision list \<Rightarrow> bool" where
  "offered cs =
     list_all (\<lambda>d. action_type (action d) \<noteq> contribute_pr
                    \<and> action_type (action d) \<noteq> write_code) cs"

definition in_range :: "Pheromone \<Rightarrow> bool" where
  "in_range p = (0 \<le> strength p \<and> strength p \<le> 1 \<and> 0 \<le> confidence p \<and> confidence p \<le> 1)"

text \<open>The three components of what a call of \<open>explore\<close> leaves behind.\<close>

fun emitted :: "ExploreResult \<Rightarrow> Pheromone option" where
  "emitted (Thrown state repos) = None"
| "emitted (Returned state repos p) = p"

fun state_after :: "ExploreResult \<Rightarrow> AutonomousAgentState" where
  "state_after (Thrown state repos) = state"
| "state_after (Returned state repos p) = state"

fun repos_after :: "ExploreResult \<Rightarrow> GitHubRepo list" where
  "repos_after (Thrown state repos) = repos"
| "repos_after (Returned state repos p) = repos"

section \<open>Example inputs\<close>

definition ex_agent :: AutonomousAgentState where
  "ex_agent =
     \<lparr>a_id = ''agent-1'', a_name = ''Neuron-A'',
      position = \<lparr>pos_x = 500, pos_y = 400\<rparr>, velocity = \<lparr>vel_dx = 0, vel_dy = 0\<rparr>,
      knowledge = [], absorbed = {||}, explorationTarget = ''consensus mechanisms'',
      energy = 0.9, synchronized = False, syncedWith = [], stepCount = 0, discoveries = 0,
      contributionsToCollective = 0,
      thoughts = [], decisions = [], currentDecision = None, reposStudied = [],
      prsCreated = [], tokensUsed = 0, tokenBudget = 50000, specialization = ''Explorer'',
      personality = \<lparr>curiosity = 0.9, diligence = 0.4, boldness = 0.3, sociability = 0.6\<rparr>,
      currentAction = ''deciding''\<rparr>"

definition ex_channel :: PheromoneChannel where
  "ex_channel =
     \<lparr>pheromones = [], density = 0.8, criticalThreshold = 0.6,
      phaseTransitionOccurred = False, transitionStep = None\<rparr>"

definition ex_uuid :: "nat \<Rightarrow> string" where
  "ex_uuid k = ''decision-'' @ showNat k"

definition ex_now :: "nat \<Rightarrow> nat" where
  "ex_now k = 100 + k"

definition ex_issue :: GitHubIssue where
  "ex_issue =
     \<lparr>i_owner = ''octo'', i_repo = ''widget'', i_number = 7, i_title = ''Crash on start'',
      body = ''Stack trace attached'', labels = [''bug''], difficulty = easy,
      i_relevanceScore = 0.5\<rparr>"

definition ex_repo :: GitHubRepo where
  "ex_repo =
     \<lparr>r_owner = ''octo'', r_repo = ''widget'', r_description = ''A widget toolkit'',
      language = ''TypeScript'', stars = 120, topics = [''ui''], r_relevanceScore = 0.5\<rparr>"

definition ex_thought :: AgentThought where
  "ex_thought =
     \<lparr>t_id = ''thought-1'', t_agentId = ''agent-1'', trigger = ''repo_analysis'',
      observation = ''Discovered 1 issues.'', reasoning = ''The crash is easy to reproduce'',
      conclusion = ''Worth fixing'', suggestedActions = [''fix_issue:#7''],
      t_confidence = 0.7, t_timestamp = 100\<rparr>"

definition ex_decision :: "AgentAction \<Rightarrow> real \<Rightarrow> AgentDecision" where
  "ex_decision act p =
     \<lparr>d_id = ''decision-0'', d_agentId = ''agent-1'', action = act, priority = p,
      cost = estimateCost act, d_status = pending, result = None,
      d_createdAt = 100, completedAt = None\<rparr>"

definition ex_result :: "bool \<Rightarrow> DecisionResult" where
  "ex_result ok =
     \<lparr>success = ok, summary = ''Studied octo/widget'',
      res_artifacts = [\<lparr>art_type = ''analysis'', art_content = ''notes'',
                         filePath = None, prUrl = None\<rparr>],
      res_tokensUsed = 2500\<rparr>"

definition ex_pheromone :: Pheromone where
  "ex_pheromone =
     \<lparr>p_id = ''ph-1'', p_agentId = ''agent-2'', content = ''github:octo/widget'',
      domain = ''consensus mechanisms'', confidence = 0.6, strength = 0.7,
      connections = [], timestamp = 100, attestation = ''sha256(ph-1)'',
      engineering = None\<rparr>"

definition ex_hash :: "string \<Rightarrow> string" where
  "ex_hash s = ''sha256('' @ s @ '')''"

definition ex_tired :: AutonomousAgentState where
  "ex_tired =
     ex_agent\<lparr>decisions := [(ex_decision (FixIssue ''octo'' ''widget'' 7) 0.4)
                               \<lparr>d_status := completed\<rparr>],
              tokensUsed := 42000,
              personality := \<lparr>curiosity = 0.9, diligence = 0.4, boldness = 0,
                              sociability = 0.6\<rparr>\<rparr>"




definition ex_done :: "AgentAction \<Rightarrow> AgentDecision" where
  "ex_done act = (ex_decision act 0.5)\<lparr>d_status := completed\<rparr>"

definition ex_history :: "AgentDecision list" where
  "ex_history =
     ex_done (FixIssue ''octo'' ''widget'' 7) # replicate 10 (ex_done (ExploreTopic ''Explorer''))"

definition ex_busy :: AutonomousAgentState where
  "ex_busy = ex_agent\<lparr>decisions := ex_history, tokensUsed := 42000\<rparr>"

definition ex_late_channel :: PheromoneChannel where
  "ex_late_channel = ex_channel\<lparr>phaseTransitionOccurred := True\<rparr>"

text \<open>
  The agent of \<open>ex_tired\<close> with the personality \<open>generatePersonality\<close> builds at index 0,
  a search that finds one repository, and a generator whose every draw is 0.2.
\<close>

definition ex_spent :: AutonomousAgentState where
  "ex_spent = ex_tired\<lparr>personality := snd (generatePersonality 0 (\<lambda>k. 0.5))\<rparr>"

definition ex_discover :: "string option \<Rightarrow> nat \<Rightarrow> nat option \<Rightarrow> GitHubRepo list" where
  "ex_discover query limit minStars = [ex_repo]"

definition ex_draws :: "nat \<Rightarrow> real" where
  "ex_draws k = 0.2"

section \<open>Properties\<close>

subsection \<open>Synchronization\<close>

text \<open>
  Claim C3. \<open>checkSync\<close> turns an unsynchronized agent synchronized if and only if the
  channel's density is at least its critical threshold, the agent has absorbed at least
  three distinct pheromones and its energy exceeds 0.5; on synchronizing the energy becomes
  1, and otherwise the state is left as it was. With threshold 0.6, density 0.8 and energy
  0.9, two absorbed pheromones leave the agent unsynchronized and three synchronize it.
\<close>

theorem checkSync_transition:
  assumes "\<not> synchronized state"
  shows "(synchronized (checkSync state channel) \<longleftrightarrow>
            density channel \<ge> criticalThreshold channel
            \<and> fcard (absorbed state) \<ge> 3 \<and> energy state > 0.5)
       \<and> (synchronized (checkSync state channel) \<longrightarrow> energy (checkSync state channel) = 1)
       \<and> (\<not> synchronized (checkSync state channel) \<longrightarrow> checkSync state channel = state)
       \<and> (criticalThreshold channel = 0.6 \<and> density channel = 0.8 \<and> energy state = 0.9
            \<and> fcard (absorbed state) = 2 \<longrightarrow> \<not> synchronized (checkSync state channel))
       \<and> (criticalThreshold channel = 0.6 \<and> density channel = 0.8 \<and> energy state = 0.9
            \<and> fcard (absorbed state) = 3
            \<longrightarrow> synchronized (checkSync state channel) \<and> energy (checkSync state channel) = 1)"
  using assms by (simp add: checkSync_def)

theorem checkSync_transition_witness:
  "\<not> synchronized (ex_agent\<lparr>absorbed := {|''p1'', ''p2''|}\<rparr>)
   \<and> \<not> synchronized (checkSync (ex_agent\<lparr>absorbed := {|''p1'', ''p2''|}\<rparr>) ex_channel)
   \<and> \<not> synchronized (ex_agent\<lparr>absorbed := {|''p1'', ''p2'', ''p3''|}\<rparr>)
   \<and> synchronized (checkSync (ex_agent\<lparr>absorbed := {|''p1'', ''p2'', ''p3''|}\<rparr>) ex_channel)
   \<and> energy (checkSync (ex_agent\<lparr>absorbed := {|''p1'', ''p2'', ''p3''|}\<rparr>) ex_channel) = 1"
  using checkSync_transition [of "ex_agent\<lparr>absorbed := {|''p1'', ''p2''|}\<rparr>" ex_channel]
    checkSync_transition [of "ex_agent\<lparr>absorbed := {|''p1'', ''p2'', ''p3''|}\<rparr>" ex_channel]
  by (simp add: ex_agent_def ex_channel_def checkSync_def fcard_finsert_if fcard_fempty)

subsection \<open>Candidate generation\<close>

lemma foldl_invariant:
  assumes "P s" and "\<And>s x. P s \<Longrightarrow> P (f s x)"
  shows "P (foldl f s xs)"
  using assms(1)
proof (induction xs arbitrary: s)
  case Nil
  then show ?case by simp
next
  case (Cons x xs)
  then show ?case by (simp add: assms(2))
qed

lemma estimateCost_tokens: "estimatedTokens (estimateCost act) = TOKEN_ESTIMATES (action_type act)"
  by (cases act) (simp_all add: estimateCost_def or_default_def)

lemma affordableD:
  "affordable b cs \<Longrightarrow> \<forall>d \<in> set cs. estimatedTokens (cost d) \<le> b"
  unfolding affordable_def list_all_iff by blast

lemma affordable_tokens:
  "affordable b cs \<Longrightarrow> d \<in> set cs \<Longrightarrow> TOKEN_ESTIMATES (action_type (action d)) \<le> b"
  by (auto simp: affordable_def list_all_iff estimateCost_tokens)

lemma affordable_push:
  assumes "affordable b cs" and "estimatedTokens (estimateCost act) \<le> b"
  shows "affordable b (push_candidate uuid now state act (estimateCost act) cs)"
  using assms by (simp add: affordable_def push_candidate_def)

lemma affordable_fromSuggestion:
  "affordable b cs \<Longrightarrow> affordable b (fromSuggestion uuid now state repos issues b cs sg)"
  by (simp add: fromSuggestion_def Let_def affordable_push split: option.splits)

lemma affordable_fromThoughts:
  "affordable b cs \<Longrightarrow> affordable b (fromThoughts uuid now state repos issues b ths cs)"
  unfolding fromThoughts_def
  by (intro foldl_invariant [where P = "affordable b"] affordable_fromSuggestion)

lemma affordable_fromRepo:
  "affordable b cs \<Longrightarrow> affordable b (fromRepo uuid now state b cs repo)"
  by (simp add: fromRepo_def Let_def affordable_push)

lemma affordable_fromPheromones:
  "affordable b cs \<Longrightarrow> affordable b (fromPheromones uuid now state channel b cs)"
  by (simp add: fromPheromones_def Let_def affordable_push)

lemma affordable_fallbackExplore:
  "affordable b cs \<Longrightarrow> affordable b (fallbackExplore uuid now state b cs)"
  by (simp add: fallbackExplore_def Let_def affordable_push)

lemma affordable_collectCandidates:
  "affordable (tokenBudget state - tokensUsed state)
     (collectCandidates uuid now state channel repos issues ths)"
  unfolding collectCandidates_def Let_def
  by (intro affordable_fallbackExplore affordable_fromPheromones
        foldl_invariant [where P = "affordable (tokenBudget state - tokensUsed state)"]
        affordable_fromRepo affordable_fromThoughts)
     (simp add: affordable_def)

lemma set_generateCandidateDecisions:
  "set (generateCandidateDecisions uuid now state channel repos issues ths) =
     (\<lambda>c. c\<lparr>priority := num_value (scoreDecision c state channel)\<rparr>)
       ` set (collectCandidates uuid now state channel repos issues ths)"
  by (simp add: generateCandidateDecisions_def)

lemma affordable_generateCandidateDecisions:
  "affordable (tokenBudget state - tokensUsed state)
     (generateCandidateDecisions uuid now state channel repos issues ths)"
  using affordable_collectCandidates [of state uuid now channel repos issues ths]
  by (auto simp: affordable_def list_all_iff set_generateCandidateDecisions)

lemma TOKEN_ESTIMATES_ge: "800 \<le> TOKEN_ESTIMATES k"
  by (cases k) simp_all

lemma TOKEN_ESTIMATES_explore: "TOKEN_ESTIMATES k < 1500 \<Longrightarrow> k = explore_topic"
  by (cases k) simp_all

text \<open>
  Claim C7. Every decision in the pool \<open>generateCandidateDecisions\<close> returns has an
  estimated token cost of at most the agent's remaining budget, \<open>tokenBudget - tokensUsed\<close>,
  and so has what each of the four sources (thoughts, repositories, pheromones, the
  explore fallback) pushes on its own.
\<close>

theorem candidates_within_budget:
  "(\<forall>d \<in> set (generateCandidateDecisions uuid now state channel repos issues ths).
      estimatedTokens (cost d) \<le> tokenBudget state - tokensUsed state)
   \<and> (\<forall>d \<in> set (fromThoughts uuid now state repos issues
                     (tokenBudget state - tokensUsed state) ths []).
        estimatedTokens (cost d) \<le> tokenBudget state - tokensUsed state)
   \<and> (\<forall>d \<in> set (foldl (fromRepo uuid now state (tokenBudget state - tokensUsed state)) []
                     (take 3 repos)).
        estimatedTokens (cost d) \<le> tokenBudget state - tokensUsed state)
   \<and> (\<forall>d \<in> set (fromPheromones uuid now state channel
                     (tokenBudget state - tokensUsed state) []).
        estimatedTokens (cost d) \<le> tokenBudget state - tokensUsed state)
   \<and> (\<forall>d \<in> set (fallbackExplore uuid now state (tokenBudget state - tokensUsed state) []).
        estimatedTokens (cost d) \<le> tokenBudget state - tokensUsed state)"
proof -
  let ?b = "tokenBudget state - tokensUsed state"
  have e: "affordable ?b []" by (simp add: affordable_def)
  have 1: "affordable ?b (generateCandidateDecisions uuid now state channel repos issues ths)"
    by (rule affordable_generateCandidateDecisions)
  have 2: "affordable ?b (fromThoughts uuid now state repos issues ?b ths [])"
    by (rule affordable_fromThoughts [OF e])
  have 3: "affordable ?b (foldl (fromRepo uuid now state ?b) [] (take 3 repos))"
    by (intro foldl_invariant [where P = "affordable ?b"] affordable_fromRepo e)
  have 4: "affordable ?b (fromPheromones uuid now state channel ?b [])"
    by (rule affordable_fromPheromones [OF e])
  have 5: "affordable ?b (fallbackExplore uuid now state ?b [])"
    by (rule affordable_fallbackExplore [OF e])
  from 1 2 3 4 5 show ?thesis
    by (intro conjI affordableD)
qed

theorem candidates_within_budget_witness:
  "hd (generateCandidateDecisions ex_uuid ex_now ex_agent ex_channel
         [ex_repo] [ex_issue] [ex_thought])
     \<in> set (generateCandidateDecisions ex_uuid ex_now ex_agent ex_channel
         [ex_repo] [ex_issue] [ex_thought])
   \<and> estimatedTokens (cost (hd (generateCandidateDecisions ex_uuid ex_now ex_agent ex_channel
         [ex_repo] [ex_issue] [ex_thought])))
       \<le> tokenBudget ex_agent - tokensUsed ex_agent"
proof -
  let ?g = "generateCandidateDecisions ex_uuid ex_now ex_agent ex_channel
         [ex_repo] [ex_issue] [ex_thought]"
  have "?g \<noteq> []" by code_simp
  then have m: "hd ?g \<in> set ?g" by simp
  from candidates_within_budget [of ex_uuid ex_now ex_agent ex_channel "[ex_repo]" "[ex_issue]"
      "[ex_thought]"] m
  show ?thesis by blast
qed

text \<open>
  Claim C1, at an input the agent can meet: one thought that suggests \<open>fix_issue:#7\<close>, one
  known issue, and a full budget. The first branch of \<open>parseSuggestedAction\<close> turns the
  suggestion into a \<open>fix_issue\<close> action before the redirecting branch is reached, the
  estimate of 8000 tokens passes the budget filter, and the pool holds a \<open>fix_issue\<close>
  candidate.
\<close>

theorem fix_issue_candidate_generated:
  "map action (generateCandidateDecisions ex_uuid ex_now ex_agent ex_channel
       [ex_repo] [ex_issue] [ex_thought])
     = [StudyRepo ''octo'' ''widget'' None, ExploreTopic ''Explorer'',
        FixIssue ''octo'' ''widget'' 7]"
  by code_simp

lemma explore_in_fallback:
  assumes "800 \<le> b"
  shows "\<exists>d \<in> set (fallbackExplore uuid now state b cs).
           action d = ExploreTopic (specialization state) \<and> d_status d = pending"
  using assms
  by (simp add: fallbackExplore_def Let_def push_candidate_def estimateCost_def or_default_def)

text \<open>
  Claim C2, as the code has it. The explore fallback passes the same budget filter as every
  other candidate, so the pool holds the \<open>explore_topic\<close> candidate on the agent's
  specialization when the remaining budget is at least its estimate of 800 tokens; below
  800 the pool is empty, and below 1500 it holds \<open>explore_topic\<close> candidates only.
\<close>

theorem fallback_candidate:
  "(800 \<le> tokenBudget state - tokensUsed state \<longrightarrow>
      (\<exists>d \<in> set (generateCandidateDecisions uuid now state channel repos issues ths).
         action d = ExploreTopic (specialization state) \<and> d_status d = pending))
   \<and> (tokenBudget state - tokensUsed state < 800 \<longrightarrow>
        generateCandidateDecisions uuid now state channel repos issues ths = [])
   \<and> (tokenBudget state - tokensUsed state < 1500 \<longrightarrow>
        (\<forall>d \<in> set (generateCandidateDecisions uuid now state channel repos issues ths).
           action_type (action d) = explore_topic))"
proof (intro conjI impI)
  let ?b = "tokenBudget state - tokensUsed state"
  let ?g = "generateCandidateDecisions uuid now state channel repos issues ths"
  have aff: "affordable ?b ?g" by (rule affordable_generateCandidateDecisions)
  {
    assume "800 \<le> ?b"
    then obtain d where d: "d \<in> set (collectCandidates uuid now state channel repos issues ths)"
      "action d = ExploreTopic (specialization state)" "d_status d = pending"
      unfolding collectCandidates_def Let_def using explore_in_fallback by blast
    then have "d\<lparr>priority := num_value (scoreDecision d state channel)\<rparr> \<in> set ?g"
      by (simp add: set_generateCandidateDecisions)
    with d(2,3) show "\<exists>d \<in> set ?g. action d = ExploreTopic (specialization state) \<and> d_status d = pending"
      by (intro bexI [where x = "d\<lparr>priority := num_value (scoreDecision d state channel)\<rparr>"]) simp_all
  }
  {
    assume lt: "?b < 800"
    show "?g = []"
    proof (cases ?g)
      case Nil
      then show ?thesis .
    next
      case (Cons d ds)
      then have "d \<in> set ?g" by simp
      with aff have "TOKEN_ESTIMATES (action_type (action d)) \<le> ?b"
        by (rule affordable_tokens)
      with TOKEN_ESTIMATES_ge [of "action_type (action d)"] lt show ?thesis by simp
    qed
  }
  {
    assume lt: "?b < 1500"
    show "\<forall>d \<in> set ?g. action_type (action d) = explore_topic"
    proof
      fix d assume "d \<in> set ?g"
      with aff have "TOKEN_ESTIMATES (action_type (action d)) \<le> ?b"
        by (rule affordable_tokens)
      with lt show "action_type (action d) = explore_topic"
        by (intro TOKEN_ESTIMATES_explore) simp
    qed
  }
qed

theorem fallback_candidate_witness:
  "800 \<le> tokenBudget (ex_agent\<lparr>tokensUsed := 49000\<rparr>) - tokensUsed (ex_agent\<lparr>tokensUsed := 49000\<rparr>)
   \<and> (\<exists>d \<in> set (generateCandidateDecisions ex_uuid ex_now (ex_agent\<lparr>tokensUsed := 49000\<rparr>)
                    ex_channel [ex_repo] [ex_issue] [ex_thought]).
         action d = ExploreTopic (specialization (ex_agent\<lparr>tokensUsed := 49000\<rparr>))
         \<and> d_status d = pending)
   \<and> map action (generateCandidateDecisions ex_uuid ex_now (ex_agent\<lparr>tokensUsed := 49000\<rparr>)
                    ex_channel [ex_repo] [ex_issue] [ex_thought]) = [ExploreTopic ''Explorer'']
   \<and> tokenBudget (ex_agent\<lparr>tokensUsed := 49500\<rparr>) - tokensUsed (ex_agent\<lparr>tokensUsed := 49500\<rparr>) < 800
   \<and> generateCandidateDecisions ex_uuid ex_now (ex_agent\<lparr>tokensUsed := 49500\<rparr>) ex_channel
        [ex_repo] [ex_issue] [ex_thought] = []"
proof -
  note thm1 = fallback_candidate [of "ex_agent\<lparr>tokensUsed := 49000\<rparr>" ex_uuid ex_now
      ex_channel "[ex_repo]" "[ex_issue]" "[ex_thought]"]
  note thm2 = fallback_candidate [of "ex_agent\<lparr>tokensUsed := 49500\<rparr>" ex_uuid ex_now
      ex_channel "[ex_repo]" "[ex_issue]" "[ex_thought]"]
  have only: "map action (generateCandidateDecisions ex_uuid ex_now (ex_agent\<lparr>tokensUsed := 49000\<rparr>)
                    ex_channel [ex_repo] [ex_issue] [ex_thought]) = [ExploreTopic ''Explorer'']"
    by code_simp
  have b1: "800 \<le> tokenBudget (ex_agent\<lparr>tokensUsed := 49000\<rparr>) - tokensUsed (ex_agent\<lparr>tokensUsed := 49000\<rparr>)"
    by (simp add: ex_agent_def)
  have b2: "tokenBudget (ex_agent\<lparr>tokensUsed := 49500\<rparr>) - tokensUsed (ex_agent\<lparr>tokensUsed := 49500\<rparr>) < 800"
    by (simp add: ex_agent_def)
  from thm1 b1 thm2 b2 only show ?thesis
    by blast
qed

text \<open>
  The scenario of claim C2 as stated: with a budget of 50000 and 49500 tokens used, 500
  tokens remain, the fallback's 800 do not fit, and nothing survives the filtering.
\<close>

theorem fallback_counterexample:
  "tokenBudget (ex_agent\<lparr>tokensUsed := 49500\<rparr>) = 50000
   \<and> tokensUsed (ex_agent\<lparr>tokensUsed := 49500\<rparr>) = 49500
   \<and> generateCandidateDecisions ex_uuid ex_now (ex_agent\<lparr>tokensUsed := 49500\<rparr>) ex_channel
        [ex_repo] [ex_issue] [ex_thought] = []"
  by code_simp

subsection \<open>Scoring\<close>

lemma among_last:
  "(\<exists>i<length ds. length ds \<le> i + n \<and> P (ds ! i))
     \<longleftrightarrow> (\<exists>x \<in> set (slice_last n ds). P x)"
proof
  assume "\<exists>i<length ds. length ds \<le> i + n \<and> P (ds ! i)"
  then obtain i where i: "i < length ds" "length ds \<le> i + n" "P (ds ! i)" by blast
  then have "ds ! i \<in> set (drop (length ds - n) ds)"
    by (auto simp: set_conv_nth intro!: exI [where x = "i - (length ds - n)"])
  with i(3) show "\<exists>x \<in> set (slice_last n ds). P x"
    unfolding slice_last_def by blast
next
  assume "\<exists>x \<in> set (slice_last n ds). P x"
  then obtain x where x: "x \<in> set (drop (length ds - n) ds)" "P x"
    unfolding slice_last_def by blast
  then obtain j where j: "j < length ds - (length ds - n)" "drop (length ds - n) ds ! j = x"
    by (auto simp: set_conv_nth)
  then have "ds ! (length ds - n + j) = x" by simp
  with j(1) x(2) show "\<exists>i<length ds. length ds \<le> i + n \<and> P (ds ! i)"
    by (intro exI [where x = "length ds - n + j"]) auto
qed

lemma js_mul_neg: "js_mul (js_neg x) (Num c) = js_neg (js_mul x (Num c))"
  by (cases x) (auto simp: js_inf_times_def)

lemma js_add_neg: "js_add x (js_neg y) = js_sub x y"
  by (simp add: js_sub_def)

lemma base_priority_default: "or_default (ACTION_PRIORITIES k) 0.5 = ACTION_PRIORITIES k"
  by (cases k) (simp_all add: or_default_def)

lemma risk_multiplier_case:
  "(case r of low \<Rightarrow> 0 | medium \<Rightarrow> 0.1 | high \<Rightarrow> 0.2) = risk_multiplier r"
  by (cases r) simp_all

lemma personal_fit_trait:
  "(if k = study_repo \<or> k = explore_topic then curiosity pers * 0.10
    else if k = fix_issue \<or> k = contribute_pr then boldness pers * 0.10
    else if k = share_technique then sociability pers * 0.10
    else if k = refactor \<or> k = document then diligence pers * 0.10
    else 0) = relevant_trait k pers * 0.10"
  by (cases k) (simp_all add: relevant_trait_def)

lemma recent_types:
  "(k \<in> set (map (\<lambda>d. action_type (action d)) (slice_last 10 ds)))
     \<longleftrightarrow> (\<exists>i<length ds. length ds \<le> i + 10 \<and> action_type (action (ds ! i)) = k)"
  unfolding among_last [where P = "\<lambda>d. action_type (action d) = k"] by auto

text \<open>
  Claim C4. \<open>scoreDecision\<close> takes no random draw and no clock: two calls with the same
  decision, state and channel give the same number. That number is the sum of six signals,
  in JavaScript's arithmetic: the base priority of the action kind times 0.20, the cost
  efficiency \<open>max 0 (1 - tokens / remaining)\<close> times 0.25, a staleness bonus of 0.15 when
  none of the agent's last ten decisions has the action's kind, minus the risk multiplier
  (0, 0.1 or 0.2 by risk level) times \<open>1 - remaining / budget\<close> times 0.20, a bonus of
  0.10 after the phase transition for every kind but \<open>explore_topic\<close>, and the trait
  relevant to the kind times 0.10. Where neither divisor is zero the sum is the finite
  number the same formula gives over the reals.
\<close>

theorem scoreDecision_weighted_sum:
  "scoreDecision decision state channel =
     js_add (js_add
       (js_sub
          (js_add
             (js_add (Num (ACTION_PRIORITIES (action_type (action decision)) * 0.20))
                (js_mul
                   (js_max (Num 0)
                      (js_sub (Num 1)
                         (js_div (estimatedTokens (cost decision))
                            (tokenBudget state - tokensUsed state))))
                   (Num 0.25)))
             (Num (if \<exists>i<length (decisions state).
                          length (decisions state) \<le> i + 10
                          \<and> action_type (action (decisions state ! i))
                              = action_type (action decision)
                   then 0 else 0.15)))
          (js_mul
             (js_mul (Num (risk_multiplier (riskLevel (cost decision))))
                (js_sub (Num 1)
                   (js_div (tokenBudget state - tokensUsed state) (tokenBudget state))))
             (Num 0.20)))
       (Num (if phaseTransitionOccurred channel
                 \<and> action_type (action decision) \<noteq> explore_topic
             then 0.10 else 0)))
       (Num (relevant_trait (action_type (action decision)) (personality state) * 0.10))
   \<and> (tokenBudget state \<noteq> 0 \<and> tokenBudget state - tokensUsed state \<noteq> 0 \<longrightarrow>
        scoreDecision decision state channel =
          Num (ACTION_PRIORITIES (action_type (action decision)) * 0.20
               + max 0 (1 - estimatedTokens (cost decision)
                              / (tokenBudget state - tokensUsed state)) * 0.25
               + (if \<exists>i<length (decisions state).
                        length (decisions state) \<le> i + 10
                        \<and> action_type (action (decisions state ! i))
                            = action_type (action decision)
                  then 0 else 0.15)
               - risk_multiplier (riskLevel (cost decision))
                   * (1 - (tokenBudget state - tokensUsed state) / tokenBudget state) * 0.20
               + (if phaseTransitionOccurred channel
                     \<and> action_type (action decision) \<noteq> explore_topic
                  then 0.10 else 0)
               + relevant_trait (action_type (action decision)) (personality state) * 0.10))
   \<and> (\<forall>decision' state' channel'.
         decision' = decision \<and> state' = state \<and> channel' = channel \<longrightarrow>
         scoreDecision decision' state' channel' = scoreDecision decision state channel)"
proof (intro conjI)
  show sum: "scoreDecision decision state channel =
     js_add (js_add
       (js_sub
          (js_add
             (js_add (Num (ACTION_PRIORITIES (action_type (action decision)) * 0.20))
                (js_mul
                   (js_max (Num 0)
                      (js_sub (Num 1)
                         (js_div (estimatedTokens (cost decision))
                            (tokenBudget state - tokensUsed state))))
                   (Num 0.25)))
             (Num (if \<exists>i<length (decisions state).
                          length (decisions state) \<le> i + 10
                          \<and> action_type (action (decisions state ! i))
                              = action_type (action decision)
                   then 0 else 0.15)))
          (js_mul
             (js_mul (Num (risk_multiplier (riskLevel (cost decision))))
                (js_sub (Num 1)
                   (js_div (tokenBudget state - tokensUsed state) (tokenBudget state))))
             (Num 0.20)))
       (Num (if phaseTransitionOccurred channel
                 \<and> action_type (action decision) \<noteq> explore_topic
             then 0.10 else 0)))
       (Num (relevant_trait (action_type (action decision)) (personality state) * 0.10))"
    unfolding scoreDecision_def Let_def base_priority_default risk_multiplier_case
      personal_fit_trait recent_types js_mul_neg js_add_neg
    by (rule refl)
  show "tokenBudget state \<noteq> 0 \<and> tokenBudget state - tokensUsed state \<noteq> 0 \<longrightarrow>
        scoreDecision decision state channel =
          Num (ACTION_PRIORITIES (action_type (action decision)) * 0.20
               + max 0 (1 - estimatedTokens (cost decision)
                              / (tokenBudget state - tokensUsed state)) * 0.25
               + (if \<exists>i<length (decisions state).
                        length (decisions state) \<le> i + 10
                        \<and> action_type (action (decisions state ! i))
                            = action_type (action decision)
                  then 0 else 0.15)
               - risk_multiplier (riskLevel (cost decision))
                   * (1 - (tokenBudget state - tokensUsed state) / tokenBudget state) * 0.20
               + (if phaseTransitionOccurred channel
                     \<and> action_type (action decision) \<noteq> explore_topic
                  then 0.10 else 0)
               + relevant_trait (action_type (action decision)) (personality state) * 0.10)"
    unfolding sum by (simp add: js_div_def js_sub_def)
  show "\<forall>decision' state' channel'.
         decision' = decision \<and> state' = state \<and> channel' = channel \<longrightarrow>
         scoreDecision decision' state' channel' = scoreDecision decision state channel"
    by simp
qed

theorem scoreDecision_weighted_sum_witness:
  "tokenBudget ex_busy \<noteq> 0 \<and> tokenBudget ex_busy - tokensUsed ex_busy \<noteq> 0
   \<and> length (decisions ex_busy) = 11
   \<and> action_type (action (decisions ex_busy ! 0)) = fix_issue
   \<and> \<not> (\<exists>i<length (decisions ex_busy). length (decisions ex_busy) \<le> i + 10
            \<and> action_type (action (decisions ex_busy ! i)) = fix_issue)
   \<and> scoreDecision (ex_decision (FixIssue ''octo'' ''widget'' 7) 0) ex_busy ex_late_channel
       = Num (0.05 * 0.20 + 0 * 0.25 + 0.15 - 0.1 * (1 - 8000 / 50000) * 0.20 + 0.10 + 0.3 * 0.10)
   \<and> scoreDecision (ex_decision (FixIssue ''octo'' ''widget'' 7) 0)
         (ex_busy\<lparr>decisions := butlast ex_history\<rparr>) ex_late_channel
       = Num (0.05 * 0.20 + 0 * 0.25 + 0 - 0.1 * (1 - 8000 / 50000) * 0.20 + 0.10 + 0.3 * 0.10)
   \<and> scoreDecision (ex_decision (StudyRepo ''octo'' ''widget'' None) 0)
         (ex_agent\<lparr>tokensUsed := 50000\<rparr>) ex_channel
       = Num 0.41
   \<and> scoreDecision (ex_decision (StudyRepo ''octo'' ''widget'' None) 0)
         (ex_agent\<lparr>tokenBudget := 0\<rparr>) ex_channel
       = NaN"
proof -
  let ?fix = "ex_decision (FixIssue ''octo'' ''widget'' 7) 0"
  have h1: "tokenBudget ex_busy \<noteq> 0" by (simp add: ex_busy_def ex_agent_def)
  have h2: "tokenBudget ex_busy - tokensUsed ex_busy \<noteq> 0" by (simp add: ex_busy_def ex_agent_def)
  have len: "length (decisions ex_busy) = 11" by (simp add: ex_busy_def ex_history_def)
  have first: "action_type (action (decisions ex_busy ! 0)) = fix_issue"
    by (simp add: ex_busy_def ex_history_def ex_done_def ex_decision_def)
  have "fix_issue \<notin> set (map (\<lambda>d. action_type (action d)) (slice_last 10 (decisions ex_busy)))"
    by code_simp
  then have stale: "\<not> (\<exists>i<length (decisions ex_busy). length (decisions ex_busy) \<le> i + 10
            \<and> action_type (action (decisions ex_busy ! i)) = fix_issue)"
    unfolding recent_types .
  have kind: "action_type (action ?fix) = fix_issue" by (simp add: ex_decision_def)
  have fields: "estimatedTokens (cost ?fix) = 8000" "riskLevel (cost ?fix) = medium"
    "tokenBudget ex_busy = 50000" "tokensUsed ex_busy = 42000"
    "boldness (personality ex_busy) = 0.3" "phaseTransitionOccurred ex_late_channel"
    by (simp_all add: ex_decision_def estimateCost_def or_default_def ex_busy_def ex_agent_def
        ex_late_channel_def ex_channel_def)
  from scoreDecision_weighted_sum [of ?fix ex_busy ex_late_channel] h1 h2
  have "scoreDecision ?fix ex_busy ex_late_channel =
          Num (ACTION_PRIORITIES (action_type (action ?fix)) * 0.20
               + max 0 (1 - estimatedTokens (cost ?fix)
                              / (tokenBudget ex_busy - tokensUsed ex_busy)) * 0.25
               + (if \<exists>i<length (decisions ex_busy).
                        length (decisions ex_busy) \<le> i + 10
                        \<and> action_type (action (decisions ex_busy ! i))
                            = action_type (action ?fix)
                  then 0 else 0.15)
               - risk_multiplier (riskLevel (cost ?fix))
                   * (1 - (tokenBudget ex_busy - tokensUsed ex_busy) / tokenBudget ex_busy) * 0.20
               + (if phaseTransitionOccurred ex_late_channel
                     \<and> action_type (action ?fix) \<noteq> explore_topic
                  then 0.10 else 0)
               + relevant_trait (action_type (action ?fix)) (personality ex_busy) * 0.10)"
    by blast
  then have far: "scoreDecision ?fix ex_busy ex_late_channel
       = Num (0.05 * 0.20 + 0 * 0.25 + 0.15 - 0.1 * (1 - 8000 / 50000) * 0.20 + 0.10 + 0.3 * 0.10)"
    unfolding kind using stale by (simp add: fields relevant_trait_def)
  have near: "scoreDecision ?fix (ex_busy\<lparr>decisions := butlast ex_history\<rparr>) ex_late_channel
       = Num (0.05 * 0.20 + 0 * 0.25 + 0 - 0.1 * (1 - 8000 / 50000) * 0.20 + 0.10 + 0.3 * 0.10)"
    by code_simp
  have zero: "scoreDecision (ex_decision (StudyRepo ''octo'' ''widget'' None) 0)
         (ex_agent\<lparr>tokensUsed := 50000\<rparr>) ex_channel = Num 0.41"
    by code_simp
  have nan: "scoreDecision (ex_decision (StudyRepo ''octo'' ''widget'' None) 0)
         (ex_agent\<lparr>tokenBudget := 0\<rparr>) ex_channel = NaN"
    by code_simp
  from h1 h2 len first stale far near zero nan show ?thesis by blast
qed

subsection \<open>Selection and switching\<close>






text \<open>
  Claim C6, as the code has it. The last result is looked at first: after a success the
  answer is \<open>rnd < 0.3\<close>, after a failure \<open>rnd < 0.7\<close>, where \<open>rnd\<close> is the uniform
  draw; only without a last result the answer is whether the agent has no current decision
  or has used up its budget.
\<close>

theorem shouldSwitch_cases:
  "shouldSwitch state lastResult rnd =
     (case lastResult of
        Some r \<Rightarrow> (if success r then rnd < 0.3 else rnd < 0.7)
      | None \<Rightarrow> (currentDecision state = None \<or> tokensUsed state \<ge> tokenBudget state))"
  by (simp add: shouldSwitch_def split: option.splits)

text \<open>
  Claim C6 as stated fails: an agent without a current decision whose last step succeeded
  does not switch on a draw of 0.5, and an agent whose budget is used up and whose last
  step failed does not switch on a draw of 0.9.
\<close>

theorem shouldSwitch_counterexample:
  "currentDecision ex_agent = None
   \<and> \<not> shouldSwitch ex_agent (Some (ex_result True)) 0.5
   \<and> tokensUsed (ex_agent\<lparr>tokensUsed := 50000\<rparr>) \<ge> tokenBudget (ex_agent\<lparr>tokensUsed := 50000\<rparr>)
   \<and> \<not> shouldSwitch (ex_agent\<lparr>tokensUsed := 50000\<rparr>) (Some (ex_result False)) 0.9"
  by (simp add: shouldSwitch_def ex_agent_def ex_result_def)

subsection \<open>Absorption\<close>

lemma absorbOne_absorbed:
  "p_id p |\<in>| absorbed state \<Longrightarrow>
     absorbOne rnd (state, k, al, vis) p = (state, k, al, vis @ [p])"
  by (simp add: absorbOne_def)

lemma absorb_loop_absorbed:
  "\<forall>p \<in> set ps. p_id p |\<in>| absorbed state \<Longrightarrow>
     foldl (absorbOne rnd) (state, k, al, vis) ps = (state, k, al, vis @ ps)"
  by (induction ps arbitrary: vis) (simp_all add: absorbOne_absorbed)

lemma absorbPheromones_absorbed:
  "\<forall>p \<in> set (pheromones channel). p_id p |\<in>| absorbed state \<Longrightarrow>
     absorbPheromones rnd state channel = (state, channel, [])"
  by (simp add: absorbPheromones_def absorb_loop_absorbed)

lemma absorbOne_marks:
  assumes "\<forall>q \<in> set al. p_id q |\<in>| absorbed state"
    and "absorbOne rnd (state, k, al, vis) p = (state', k', al', vis')"
  shows "\<forall>q \<in> set al'. p_id q |\<in>| absorbed state'"
  using assms by (auto simp: absorbOne_def Let_def split: if_splits)

lemma absorb_loop_marks:
  assumes "\<forall>q \<in> set al. p_id q |\<in>| absorbed state"
    and "foldl (absorbOne rnd) (state, k, al, vis) ps = (state', k', al', vis')"
  shows "\<forall>q \<in> set al'. p_id q |\<in>| absorbed state'"
  using assms
proof (induction ps arbitrary: state k al vis)
  case Nil
  then show ?case by simp
next
  case (Cons p ps)
  obtain s1 k1 al1 vis1 where step: "absorbOne rnd (state, k, al, vis) p = (s1, k1, al1, vis1)"
    by (metis prod_cases4)
  have "\<forall>q \<in> set al1. p_id q |\<in>| absorbed s1"
    by (rule absorbOne_marks [OF Cons.prems(1) step])
  moreover have "foldl (absorbOne rnd) (s1, k1, al1, vis1) ps = (state', k', al', vis')"
    using Cons.prems(2) step by simp
  ultimately show ?case by (rule Cons.IH)
qed

text \<open>
  Claim C9. Absorption is idempotent per pheromone id. When the agent's absorbed set holds
  a pheromone's id, the loop's step over that pheromone changes neither the agent's state
  (its absorbed set and its energy among it) nor the pheromone, whatever the draw; a pass
  over a channel of such pheromones returns the state and the channel as they were and
  absorbs nothing; and after any pass, a second pass over the pheromones the first one
  absorbed changes nothing.
\<close>

theorem absorb_idempotent:
  "(p_id p |\<in>| absorbed state \<longrightarrow>
      absorbOne rnd (state, k, al, vis) p = (state, k, al, vis @ [p]))
   \<and> ((\<forall>q \<in> set (pheromones channel). p_id q |\<in>| absorbed state) \<longrightarrow>
        absorbPheromones rnd state channel = (state, channel, []))
   \<and> (absorbPheromones rnd state channel = (state', channel', taken) \<longrightarrow>
        absorbPheromones rnd' state' (channel'\<lparr>pheromones := taken\<rparr>)
          = (state', channel'\<lparr>pheromones := taken\<rparr>, []))"
proof (intro conjI impI)
  assume "p_id p |\<in>| absorbed state"
  then show "absorbOne rnd (state, k, al, vis) p = (state, k, al, vis @ [p])"
    by (rule absorbOne_absorbed)
next
  assume "\<forall>q \<in> set (pheromones channel). p_id q |\<in>| absorbed state"
  then show "absorbPheromones rnd state channel = (state, channel, [])"
    by (rule absorbPheromones_absorbed)
next
  assume pass: "absorbPheromones rnd state channel = (state', channel', taken)"
  obtain s1 k1 al1 vis1 where
    loop: "foldl (absorbOne rnd) (state, 0, [], []) (pheromones channel) = (s1, k1, al1, vis1)"
    by (metis prod_cases4)
  with pass have eq: "state' = s1" "taken = al1"
    by (simp_all add: absorbPheromones_def)
  have "\<forall>q \<in> set al1. p_id q |\<in>| absorbed s1"
    by (rule absorb_loop_marks [OF _ loop]) simp
  with eq have "\<forall>q \<in> set (pheromones (channel'\<lparr>pheromones := taken\<rparr>)).
                  p_id q |\<in>| absorbed state'"
    by simp
  then show "absorbPheromones rnd' state' (channel'\<lparr>pheromones := taken\<rparr>)
          = (state', channel'\<lparr>pheromones := taken\<rparr>, [])"
    by (rule absorbPheromones_absorbed)
qed

theorem absorb_idempotent_witness:
  "absorbPheromones (\<lambda>k. 0.1) ex_agent (ex_channel\<lparr>pheromones := [ex_pheromone]\<rparr>)
     = (ex_agent\<lparr>absorbed := {|''ph-1''|}, energy := 0.95\<rparr>,
        ex_channel\<lparr>pheromones := [ex_pheromone\<lparr>strength := 0.8\<rparr>]\<rparr>,
        [ex_pheromone\<lparr>strength := 0.8\<rparr>])
   \<and> absorbPheromones (\<lambda>k. 0.2) (ex_agent\<lparr>absorbed := {|''ph-1''|}, energy := 0.95\<rparr>)
         (ex_channel\<lparr>pheromones := [ex_pheromone\<lparr>strength := 0.8\<rparr>]\<rparr>)
     = (ex_agent\<lparr>absorbed := {|''ph-1''|}, energy := 0.95\<rparr>,
        ex_channel\<lparr>pheromones := [ex_pheromone\<lparr>strength := 0.8\<rparr>]\<rparr>, [])"
proof -
  let ?s1 = "ex_agent\<lparr>absorbed := {|''ph-1''|}, energy := 0.95\<rparr>"
  let ?c1 = "ex_channel\<lparr>pheromones := [ex_pheromone\<lparr>strength := 0.8\<rparr>]\<rparr>"
  have first: "absorbPheromones (\<lambda>k. 0.1) ex_agent (ex_channel\<lparr>pheromones := [ex_pheromone]\<rparr>)
     = (?s1, ?c1, [ex_pheromone\<lparr>strength := 0.8\<rparr>])"
    by (simp add: absorbPheromones_def absorbOne_def Let_def ex_agent_def ex_channel_def ex_pheromone_def)
  have same: "?c1\<lparr>pheromones := [ex_pheromone\<lparr>strength := 0.8\<rparr>]\<rparr> = ?c1"
    by simp
  from absorb_idempotent [where rnd = "\<lambda>k. 0.1" and rnd' = "\<lambda>k. 0.2" and state = ex_agent
      and channel = "ex_channel\<lparr>pheromones := [ex_pheromone]\<rparr>" and state' = ?s1
      and channel' = ?c1 and taken = "[ex_pheromone\<lparr>strength := 0.8\<rparr>]"] first
  have "absorbPheromones (\<lambda>k. 0.2) ?s1
          (?c1\<lparr>pheromones := [ex_pheromone\<lparr>strength := 0.8\<rparr>]\<rparr>)
        = (?s1, ?c1\<lparr>pheromones := [ex_pheromone\<lparr>strength := 0.8\<rparr>]\<rparr>, [])"
    by blast
  then have "absorbPheromones (\<lambda>k. 0.2) ?s1 ?c1 = (?s1, ?c1, [])"
    unfolding same .
  with first show ?thesis by blast
qed

subsection \<open>Collaboration\<close>



















subsection \<open>Action kinds of the candidates and ranges of pheromones\<close>

text \<open>
  No branch of \<open>parseSuggestedAction\<close> builds a \<open>contribute_pr\<close> or a \<open>write_code\<close>
  action, and the other three sources push \<open>study_repo\<close>, \<open>share_technique\<close> and
  \<open>explore_topic\<close>, so neither kind is ever in the pool.
\<close>

lemma parseSuggestedAction_kinds:
  assumes "parseSuggestedAction sg repos issues = Some act"
  shows "action_type act \<noteq> contribute_pr \<and> action_type act \<noteq> write_code"
  using assms
  by (auto simp: parseSuggestedAction_def Let_def firstIssueAction_def firstRepoAction_def
      split: if_splits option.splits list.splits)

lemma offered_push:
  "offered cs \<Longrightarrow> action_type act \<noteq> contribute_pr \<Longrightarrow> action_type act \<noteq> write_code
     \<Longrightarrow> offered (push_candidate uuid now state act c cs)"
  by (simp add: offered_def push_candidate_def)

lemma offered_fromSuggestion:
  "offered cs \<Longrightarrow> offered (fromSuggestion uuid now state repos issues b cs sg)"
  using parseSuggestedAction_kinds
  by (auto simp: fromSuggestion_def Let_def intro!: offered_push split: option.splits)

lemma offered_collectCandidates:
  "offered (collectCandidates uuid now state channel repos issues ths)"
proof -
  let ?b = "tokenBudget state - tokensUsed state"
  have 0: "offered []" by (simp add: offered_def)
  have 1: "offered (fromThoughts uuid now state repos issues ?b ths [])"
    unfolding fromThoughts_def
    by (intro foldl_invariant [where P = offered] offered_fromSuggestion 0)
  have 2: "offered (foldl (fromRepo uuid now state ?b)
              (fromThoughts uuid now state repos issues ?b ths []) (take 3 repos))"
    by (rule foldl_invariant [where P = offered, OF 1])
       (simp add: fromRepo_def Let_def offered_push)
  have 3: "offered (fromPheromones uuid now state channel ?b
              (foldl (fromRepo uuid now state ?b)
                 (fromThoughts uuid now state repos issues ?b ths []) (take 3 repos)))"
    using 2 by (simp add: fromPheromones_def Let_def offered_push)
  then show ?thesis
    by (simp add: collectCandidates_def fallbackExplore_def Let_def offered_push)
qed

lemma never_contribute_pr:
  "\<forall>d \<in> set (generateCandidateDecisions uuid now state channel repos issues ths).
     action_type (action d) \<noteq> contribute_pr \<and> action_type (action d) \<noteq> write_code"
  using offered_collectCandidates [of uuid now state channel repos issues ths]
  by (auto simp: offered_def list_all_iff set_generateCandidateDecisions)

text \<open>
  With a budget and a remaining budget other than zero every quotient of \<open>scoreDecision\<close>
  is finite, and the score is the sum over the reals.
\<close>

lemma scoreDecision_finite:
  assumes "tokenBudget state \<noteq> 0" and "tokenBudget state - tokensUsed state \<noteq> 0"
  shows "scoreDecision decision state channel =
          Num (ACTION_PRIORITIES (action_type (action decision)) * 0.20
               + max 0 (1 - estimatedTokens (cost decision)
                              / (tokenBudget state - tokensUsed state)) * 0.25
               + (if \<exists>i<length (decisions state).
                        length (decisions state) \<le> i + 10
                        \<and> action_type (action (decisions state ! i))
                            = action_type (action decision)
                  then 0 else 0.15)
               - risk_multiplier (riskLevel (cost decision))
                   * (1 - (tokenBudget state - tokensUsed state) / tokenBudget state) * 0.20
               + (if phaseTransitionOccurred channel
                     \<and> action_type (action decision) \<noteq> explore_topic
                  then 0.10 else 0)
               + relevant_trait (action_type (action decision)) (personality state) * 0.10)"
  using assms
  unfolding scoreDecision_def Let_def base_priority_default risk_multiplier_case
      personal_fit_trait recent_types
  by (simp add: js_div_def js_sub_def)

text \<open>
  The traits \<open>generatePersonality\<close> builds: the perturbation is clamped at 0, so no trait
  lies below its preset, and the least preset of boldness is 0.3.
\<close>

lemma perturb_range: "0 \<le> perturb r \<and> perturb r \<le> 1"
  by (simp add: perturb_def)

lemma generatePersonality_range:
  assumes "pers = snd (generatePersonality index rnd)"
  shows "0 \<le> curiosity pers \<and> curiosity pers \<le> 1
       \<and> 0 \<le> diligence pers \<and> diligence pers \<le> 1
       \<and> 0.3 \<le> boldness pers \<and> boldness pers \<le> 1
       \<and> 0 \<le> sociability pers \<and> sociability pers \<le> 1"
proof -
  have "index mod 3 = 0 \<or> index mod 3 = 1 \<or> index mod 3 = 2" by arith
  then show ?thesis
    using perturb_range [of "rnd 2"]
    by (auto simp: assms generatePersonality_def PERSONALITY_PRESETS_def min_def max_def)
qed

lemma ACTION_PRIORITIES_bounds: "0.05 \<le> ACTION_PRIORITIES k \<and> ACTION_PRIORITIES k \<le> 0.9"
  by (cases k) simp_all

lemma relevant_trait_range:
  assumes "0 \<le> curiosity pers" "curiosity pers \<le> 1" "0 \<le> diligence pers" "diligence pers \<le> 1"
    "0 \<le> boldness pers" "boldness pers \<le> 1" "0 \<le> sociability pers" "sociability pers \<le> 1"
  shows "0 \<le> relevant_trait k pers \<and> relevant_trait k pers \<le> 1"
  using assms by (cases k) (simp_all add: relevant_trait_def)

lemma estimateCost_risk:
  "riskLevel (estimateCost act) =
     (if action_type act = contribute_pr then high
      else if action_type act = write_code \<or> action_type act = fix_issue then medium
      else low)"
  by (simp add: estimateCost_def)

text \<open>
  The score of every candidate \<open>generateCandidateDecisions\<close> collects for an agent whose
  personality \<open>generatePersonality\<close> built is a finite number of the unit interval: at
  least 800 tokens remain, only \<open>fix_issue\<close> carries a risk above low, and its penalty of
  at most 0.02 is covered by the boldness of at least 0.3.
\<close>

lemma candidate_score_bounds:
  assumes pers: "personality state = snd (generatePersonality index prnd)"
    and used: "0 \<le> tokensUsed state"
    and c: "c \<in> set (collectCandidates uuid now state channel repos issues ths)"
  shows "\<exists>v. scoreDecision c state channel = Num v \<and> 0 \<le> v \<and> v \<le> 1"
proof -
  let ?b = "tokenBudget state - tokensUsed state"
  let ?k = "action_type (action c)"
  from affordable_collectCandidates [of state uuid now channel repos issues ths] c
  have cost: "cost c = estimateCost (action c)" and fits: "estimatedTokens (cost c) \<le> ?b"
    by (auto simp: affordable_def list_all_iff)
  from offered_collectCandidates [of uuid now state channel repos issues ths] c
  have kinds: "?k \<noteq> contribute_pr" "?k \<noteq> write_code"
    by (auto simp: offered_def list_all_iff)
  have tok: "800 \<le> estimatedTokens (cost c)"
    by (simp add: cost estimateCost_tokens TOKEN_ESTIMATES_ge)
  with fits used have pos: "0 < ?b" and budget: "0 < tokenBudget state" by simp_all
  from generatePersonality_range [OF pers]
  have traits: "0 \<le> curiosity (personality state)" "curiosity (personality state) \<le> 1"
    "0 \<le> diligence (personality state)" "diligence (personality state) \<le> 1"
    "0.3 \<le> boldness (personality state)" "boldness (personality state) \<le> 1"
    "0 \<le> sociability (personality state)" "sociability (personality state) \<le> 1"
    by simp_all
  define A where "A = ACTION_PRIORITIES ?k"
  define E where "E = max 0 (1 - estimatedTokens (cost c) / ?b)"
  define S where "S = (if \<exists>i<length (decisions state).
                        length (decisions state) \<le> i + 10
                        \<and> action_type (action (decisions state ! i)) = ?k
                       then 0 else (0.15::real))"
  define R where "R = risk_multiplier (riskLevel (cost c)) * (1 - ?b / tokenBudget state)"
  define W where "W = (if phaseTransitionOccurred channel \<and> ?k \<noteq> explore_topic
                       then (0.10::real) else 0)"
  define T where "T = relevant_trait ?k (personality state)"
  have score: "scoreDecision c state channel = Num (A * 0.20 + E * 0.25 + S - R * 0.20 + W + T * 0.10)"
    using scoreDecision_finite [of state c channel] pos budget
    by (simp add: A_def E_def S_def R_def W_def T_def)
  have bA: "0.05 \<le> A" "A \<le> 0.9" using ACTION_PRIORITIES_bounds [of ?k] by (simp_all add: A_def)
  have "0 \<le> estimatedTokens (cost c) / ?b" using tok pos by simp
  then have bE: "0 \<le> E" "E \<le> 1" by (simp_all add: E_def)
  have bS: "0 \<le> S" "S \<le> 0.15" by (simp_all add: S_def)
  have bW: "0 \<le> W" "W \<le> 0.10" by (simp_all add: W_def)
  have bT: "0 \<le> T" "T \<le> 1"
    using relevant_trait_range [of "personality state" ?k] traits by (simp_all add: T_def)
  have ratio: "0 \<le> 1 - ?b / tokenBudget state" "1 - ?b / tokenBudget state \<le> 1"
    using used pos budget by simp_all
  have bR: "0 \<le> R" "R \<le> 0.1"
  proof -
    have m: "0 \<le> risk_multiplier (riskLevel (cost c))" "risk_multiplier (riskLevel (cost c)) \<le> 0.1"
      using kinds by (simp_all add: cost estimateCost_risk)
    show "0 \<le> R" unfolding R_def using m(1) ratio(1) by (rule mult_nonneg_nonneg)
    have "R \<le> 0.1 * 1" unfolding R_def using m ratio by (intro mult_mono) simp_all
    then show "R \<le> 0.1" by simp
  qed
  have low: "0 \<le> A * 0.20 + T * 0.10 - R * 0.20"
  proof (cases "?k = fix_issue")
    case True
    then have "T = boldness (personality state)" by (simp add: T_def relevant_trait_def)
    with traits(5) bA bR show ?thesis by simp
  next
    case False
    with kinds have "riskLevel (cost c) = low" by (simp add: cost estimateCost_risk)
    then have "R = 0" by (simp add: R_def)
    with bA bT show ?thesis by simp
  qed
  from low bA bE bS bW bT bR have "0 \<le> A * 0.20 + E * 0.25 + S - R * 0.20 + W + T * 0.10"
    "A * 0.20 + E * 0.25 + S - R * 0.20 + W + T * 0.10 \<le> 1"
    by simp_all
  with score show ?thesis by blast
qed

lemma createEngineeringPheromone_range:
  assumes "0 \<le> priority decision" and "priority decision \<le> 1"
  shows "in_range (snd (createEngineeringPheromone uuid now1 now2 hash state decision res))"
  using assms by (simp add: createEngineeringPheromone_def Let_def in_range_def)

lemma candidate_priority_finite:
  assumes pers: "personality agent = snd (generatePersonality index prnd)"
    and used: "0 \<le> tokensUsed agent"
    and d: "d \<in> set (generateCandidateDecisions uuid now agent channel repos issues ths)"
  shows "\<exists>c \<in> set (collectCandidates uuid now agent channel repos issues ths).
           d = c\<lparr>priority := priority d\<rparr>
           \<and> scoreDecision c agent channel = Num (priority d)
           \<and> 0 \<le> priority d \<and> priority d \<le> 1"
proof -
  from d obtain c where c: "c \<in> set (collectCandidates uuid now agent channel repos issues ths)"
    and dc: "d = c\<lparr>priority := num_value (scoreDecision c agent channel)\<rparr>"
    by (auto simp: set_generateCandidateDecisions)
  from candidate_score_bounds [OF pers used c]
  obtain v where v: "scoreDecision c agent channel = Num v" "0 \<le> v" "v \<le> 1" by blast
  with dc have p: "priority d = v" by simp
  with dc v(1) have "d = c\<lparr>priority := priority d\<rparr>" by simp
  with c v p show ?thesis by blast
qed

lemma candidate_pheromone_in_range:
  assumes pers: "personality agent = snd (generatePersonality index prnd)"
    and used: "0 \<le> tokensUsed agent"
    and d: "d \<in> set (generateCandidateDecisions uuid now agent channel repos issues ths)"
  shows "in_range (snd (createEngineeringPheromone uid now1 now2 hash state d res))"
proof -
  from candidate_priority_finite [OF pers used d]
  have "0 \<le> priority d" "priority d \<le> 1" by blast+
  then show ?thesis by (rule createEngineeringPheromone_range)
qed

lemma createEngineeringPheromone_knowledge:
  assumes "list_all in_range (knowledge state)"
    and "in_range (snd (createEngineeringPheromone uid now1 now2 hash state d res))"
  shows "list_all in_range (knowledge (fst (createEngineeringPheromone uid now1 now2 hash state d res)))"
  using assms by (simp add: createEngineeringPheromone_def Let_def)

text \<open>
  \<open>explore\<close> emits with a confidence of \<open>min 1 (c + 0.1)\<close> for the confidence \<open>c\<close> of
  an absorbed pheromone, of \<open>0.4 + r * 0.4\<close> or of \<open>0.3 + r * 0.4\<close> for a draw \<open>r\<close>,
  and with the strength \<open>0.5 + confidence * 0.3\<close>.
\<close>

lemma emit_pheromone_range:
  assumes "0 \<le> conf" and "conf \<le> 1"
    and "emit_pheromone uuid now1 now2 hash state text domain0 conf conns = (state', ph)"
  shows "in_range ph \<and> (list_all in_range (knowledge state) \<longrightarrow> list_all in_range (knowledge state'))"
  using assms by (auto simp: emit_pheromone_def Let_def in_range_def)

lemma js_index_Some: "js_index xs i = Some x \<Longrightarrow> x \<in> set xs"
  by (auto simp: js_index_def split: if_splits)

lemma explore_in_range:
  assumes draws: "\<forall>k. 0 \<le> rnd k \<and> rnd k < 1"
    and taken: "list_all in_range absorbedList"
    and result: "explore rnd discover envTopics uuid now1 now2 hash state discoveredRepos absorbedList
                   = Returned state' repos' (Some ph)"
  shows "in_range ph \<and> (list_all in_range (knowledge state) \<longrightarrow> list_all in_range (knowledge state'))"
proof -
  have d: "0 \<le> rnd k" "rnd k \<le> 1" for k using draws by (simp_all add: less_imp_le)
  have far: "0 \<le> 2 / 5 + rnd k * 2 / 5" "2 / 5 + rnd k * 2 / 5 \<le> 1"
    "0 \<le> 3 / 10 + rnd k * 2 / 5" "3 / 10 + rnd k * 2 / 5 \<le> 1" for k
    using d [of k] by simp_all
  have near: "0 \<le> min 1.0 (confidence source + 0.1) \<and> min 1.0 (confidence source + 0.1) \<le> 1"
    if "js_index absorbedList i = Some source" for i source
  proof -
    from that taken have "in_range source"
      by (auto simp: list_all_iff dest: js_index_Some)
    then show ?thesis by (simp add: in_range_def)
  qed
  from result show ?thesis
    unfolding explore_def Let_def
    by (auto simp: far split: if_splits option.splits prod.splits list.splits
        dest!: emit_pheromone_range [rotated 2] near)
qed

text \<open>
  The boost of \<open>absorbPheromones\<close> keeps the channel's pheromones, and the ones it
  returns, within range.
\<close>

lemma absorbOne_range:
  assumes "in_range p" and "list_all in_range al" and "list_all in_range vis"
    and "absorbOne rnd (state, k, al, vis) p = (state', k', al', vis')"
  shows "list_all in_range al' \<and> list_all in_range vis'"
  using assms by (auto simp: absorbOne_def Let_def in_range_def split: if_splits)

lemma absorb_loop_range:
  assumes "list_all in_range ps" and "list_all in_range al" and "list_all in_range vis"
    and "foldl (absorbOne rnd) (state, k, al, vis) ps = (state', k', al', vis')"
  shows "list_all in_range al' \<and> list_all in_range vis'"
  using assms
proof (induction ps arbitrary: state k al vis)
  case Nil
  then show ?case by simp
next
  case (Cons p ps)
  obtain s1 k1 al1 vis1 where step: "absorbOne rnd (state, k, al, vis) p = (s1, k1, al1, vis1)"
    by (metis prod_cases4)
  from Cons.prems(1) have p: "in_range p" and ps: "list_all in_range ps" by simp_all
  from absorbOne_range [OF p Cons.prems(2,3) step]
  have "list_all in_range al1" "list_all in_range vis1" by simp_all
  moreover have "foldl (absorbOne rnd) (s1, k1, al1, vis1) ps = (state', k', al', vis')"
    using Cons.prems(4) step by simp
  ultimately show ?case using ps Cons.IH by blast
qed

lemma absorbPheromones_range:
  assumes "list_all in_range (pheromones channel)"
    and "absorbPheromones rnd state channel = (state', channel', taken)"
  shows "list_all in_range (pheromones channel') \<and> list_all in_range taken"
proof -
  obtain s1 k1 al1 vis1 where
    loop: "foldl (absorbOne rnd) (state, 0, [], []) (pheromones channel) = (s1, k1, al1, vis1)"
    by (metis prod_cases4)
  from absorb_loop_range [OF assms(1) _ _ loop]
  have "list_all in_range al1 \<and> list_all in_range vis1" by simp
  with assms(2) loop show ?thesis by (auto simp: absorbPheromones_def)
qed

text \<open>
  Claim C8: every pheromone the three operations create or change has its strength and
  its confidence in the unit interval, and the agent's knowledge and the channel stay
  within it.
  \<^item> \<open>explore\<close>, for draws of \<^verbatim>\<open>Math.random()\<close> in \<open>[0, 1)\<close> and absorbed
    pheromones within range.
  \<^item> \<open>createEngineeringPheromone\<close>, for the decisions it receives: a candidate of
    \<open>generateCandidateDecisions\<close>, with its status, result and completion time
    overwritten, of an agent whose personality \<open>generatePersonality\<close> built and whose
    count of used tokens is not negative. The candidate's score is then a finite number,
    the one its priority holds.
  \<^item> \<open>absorbPheromones\<close>, for a channel within range.
\<close>

theorem pheromones_in_range:
  "(((\<forall>k. 0 \<le> rnd k \<and> rnd k < 1) \<and> list_all in_range taken
      \<and> explore rnd discover envTopics uid now1 now2 hash state discoveredRepos taken
          = Returned state1 repos1 (Some ph))
     \<longrightarrow> in_range ph
         \<and> (list_all in_range (knowledge state) \<longrightarrow> list_all in_range (knowledge state1)))
   \<and> ((personality agent = snd (generatePersonality index prnd) \<and> 0 \<le> tokensUsed agent
        \<and> d \<in> set (generateCandidateDecisions uuid now agent channel repos issues ths))
     \<longrightarrow> in_range (snd (createEngineeringPheromone uid now1 now2 hash state
                          (d\<lparr>d_status := st, result := outcome, completedAt := finished\<rparr>) res))
         \<and> (list_all in_range (knowledge state)
              \<longrightarrow> list_all in_range
                    (knowledge (fst (createEngineeringPheromone uid now1 now2 hash state
                       (d\<lparr>d_status := st, result := outcome, completedAt := finished\<rparr>) res))))
         \<and> (\<exists>c \<in> set (collectCandidates uuid now agent channel repos issues ths).
               d = c\<lparr>priority := priority d\<rparr>
               \<and> scoreDecision c agent channel = Num (priority d)))
   \<and> ((list_all in_range (pheromones channel)
        \<and> absorbPheromones arnd state channel = (state2, channel2, absorbedList))
     \<longrightarrow> list_all in_range (pheromones channel2) \<and> list_all in_range absorbedList)"
proof (intro conjI impI)
  assume "(\<forall>k. 0 \<le> rnd k \<and> rnd k < 1) \<and> list_all in_range taken
      \<and> explore rnd discover envTopics uid now1 now2 hash state discoveredRepos taken
          = Returned state1 repos1 (Some ph)"
  then have "in_range ph
      \<and> (list_all in_range (knowledge state) \<longrightarrow> list_all in_range (knowledge state1))"
    using explore_in_range [of rnd taken discover envTopics uid now1 now2 hash state
        discoveredRepos state1 repos1 ph]
    by blast
  then show "in_range ph" and "list_all in_range (knowledge state)
      \<Longrightarrow> list_all in_range (knowledge state1)"
    by simp_all
next
  let ?e = "d\<lparr>d_status := st, result := outcome, completedAt := finished\<rparr>"
  assume a: "personality agent = snd (generatePersonality index prnd) \<and> 0 \<le> tokensUsed agent
        \<and> d \<in> set (generateCandidateDecisions uuid now agent channel repos issues ths)"
  then have "in_range (snd (createEngineeringPheromone uid now1 now2 hash state d res))"
    using candidate_pheromone_in_range by blast
  then show r: "in_range (snd (createEngineeringPheromone uid now1 now2 hash state ?e res))"
    by (simp add: createEngineeringPheromone_def Let_def in_range_def)
  from a candidate_priority_finite [of agent index prnd d uuid now channel repos issues ths]
  show "\<exists>c \<in> set (collectCandidates uuid now agent channel repos issues ths).
               d = c\<lparr>priority := priority d\<rparr>
               \<and> scoreDecision c agent channel = Num (priority d)"
    by blast
  assume "list_all in_range (knowledge state)"
  then show "list_all in_range
      (knowledge (fst (createEngineeringPheromone uid now1 now2 hash state ?e res)))"
    using r by (rule createEngineeringPheromone_knowledge)
next
  assume "list_all in_range (pheromones channel)
        \<and> absorbPheromones arnd state channel = (state2, channel2, absorbedList)"
  then have "list_all in_range (pheromones channel2) \<and> list_all in_range absorbedList"
    using absorbPheromones_range by blast
  then show "list_all in_range (pheromones channel2)" and "list_all in_range absorbedList"
    by simp_all
qed

theorem pheromones_in_range_witness:
  "emitted (explore ex_draws ex_discover None ''ph-2'' 100 101 ex_hash ex_agent []
              [ex_pheromone\<lparr>strength := 0.8\<rparr>]) \<noteq> None
   \<and> in_range (the (emitted (explore ex_draws ex_discover None ''ph-2'' 100 101 ex_hash
                               ex_agent [] [ex_pheromone\<lparr>strength := 0.8\<rparr>])))
   \<and> confidence (the (emitted (explore ex_draws ex_discover None ''ph-2'' 100 101 ex_hash
                                 ex_agent [] [ex_pheromone\<lparr>strength := 0.8\<rparr>]))) = 7 / 10
   \<and> strength (the (emitted (explore ex_draws ex_discover None ''ph-2'' 100 101 ex_hash
                               ex_agent [] [ex_pheromone\<lparr>strength := 0.8\<rparr>]))) = 71 / 100
   \<and> map (\<lambda>d. (action_type (action d), priority d))
        (generateCandidateDecisions ex_uuid ex_now ex_spent ex_channel [] [ex_issue] [ex_thought])
      = [(explore_topic, 123 / 200), (fix_issue, 29 / 1250)]
   \<and> in_range (snd (createEngineeringPheromone ''ph-9'' 100 101 ex_hash ex_spent
        ((generateCandidateDecisions ex_uuid ex_now ex_spent ex_channel [] [ex_issue]
            [ex_thought] ! 1)
         \<lparr>d_status := completed, result := Some (ex_result True), completedAt := Some 102\<rparr>)
        (ex_result True)))
   \<and> confidence (snd (createEngineeringPheromone ''ph-9'' 100 101 ex_hash ex_spent
        ((generateCandidateDecisions ex_uuid ex_now ex_spent ex_channel [] [ex_issue]
            [ex_thought] ! 1)
         \<lparr>d_status := completed, result := Some (ex_result True), completedAt := Some 102\<rparr>)
        (ex_result True))) = 29 / 1250
   \<and> absorbPheromones (\<lambda>k. 0.1) ex_agent (ex_channel\<lparr>pheromones := [ex_pheromone]\<rparr>)
      = (ex_agent\<lparr>absorbed := {|''ph-1''|}, energy := 0.95\<rparr>,
         ex_channel\<lparr>pheromones := [ex_pheromone\<lparr>strength := 0.8\<rparr>]\<rparr>,
         [ex_pheromone\<lparr>strength := 0.8\<rparr>])
   \<and> in_range (ex_pheromone\<lparr>strength := 0.8\<rparr>)"
proof -
  let ?x = "explore ex_draws ex_discover None ''ph-2'' 100 101 ex_hash ex_agent []
              [ex_pheromone\<lparr>strength := 0.8\<rparr>]"
  let ?g = "generateCandidateDecisions ex_uuid ex_now ex_spent ex_channel [] [ex_issue]
              [ex_thought]"
  let ?c = "ex_channel\<lparr>pheromones := [ex_pheromone]\<rparr>"
  let ?s1 = "ex_agent\<lparr>absorbed := {|''ph-1''|}, energy := 0.95\<rparr>"
  let ?c1 = "ex_channel\<lparr>pheromones := [ex_pheromone\<lparr>strength := 0.8\<rparr>]\<rparr>"
  have draws: "\<forall>k. 0 \<le> ex_draws k \<and> ex_draws k < 1" by (simp add: ex_draws_def)
  have source: "list_all in_range [ex_pheromone\<lparr>strength := 0.8\<rparr>]"
    by (simp add: in_range_def ex_pheromone_def)
  have some: "emitted ?x \<noteq> None" by code_simp
  then obtain p where p: "emitted ?x = Some p" by blast
  have returned: "?x = Returned (state_after ?x) (repos_after ?x) (Some (the (emitted ?x)))"
  proof (cases ?x)
    case (Thrown s r)
    with some show ?thesis by simp
  next
    case (Returned s r q)
    with p show ?thesis by simp
  qed
  have conf: "confidence (the (emitted ?x)) = 7 / 10" by code_simp
  have str: "strength (the (emitted ?x)) = 71 / 100" by code_simp
  have pers: "personality ex_spent = snd (generatePersonality 0 (\<lambda>k. 0.5))"
    by (simp add: ex_spent_def)
  have used: "0 \<le> tokensUsed ex_spent" by (simp add: ex_spent_def ex_tired_def)
  have scores: "map (\<lambda>d. (action_type (action d), priority d)) ?g
      = [(explore_topic, 123 / 200), (fix_issue, 29 / 1250)]"
    by code_simp
  have "length ?g = 2" by code_simp
  then have member: "?g ! 1 \<in> set ?g" by simp
  have copied: "confidence (snd (createEngineeringPheromone ''ph-9'' 100 101 ex_hash ex_spent
        ((?g ! 1)\<lparr>d_status := completed, result := Some (ex_result True),
                  completedAt := Some 102\<rparr>) (ex_result True))) = 29 / 1250"
    by code_simp
  have channel: "list_all in_range (pheromones ?c)"
    by (simp add: in_range_def ex_pheromone_def)
  have boost: "absorbPheromones (\<lambda>k. 0.1) ex_agent ?c
      = (?s1, ?c1, [ex_pheromone\<lparr>strength := 0.8\<rparr>])"
    by (simp add: absorbPheromones_def absorbOne_def Let_def ex_agent_def ex_channel_def
        ex_pheromone_def)
  note one = pheromones_in_range [where rnd = ex_draws
      and taken = "[ex_pheromone\<lparr>strength := 0.8\<rparr>]"
      and discover = ex_discover and envTopics = None and uid = "''ph-2''" and ?now1.0 = 100
      and ?now2.0 = 101 and hash = ex_hash and state = ex_agent and discoveredRepos = "[]"
      and ?state1.0 = "state_after ?x" and ?repos1.0 = "repos_after ?x"
      and ph = "the (emitted ?x)",
      THEN conjunct1, THEN mp, THEN conjunct1]
  have first: "in_range (the (emitted ?x))"
    by (rule one) (intro conjI draws source returned)
  note two = pheromones_in_range [where agent = ex_spent and index = 0 and prnd = "\<lambda>k. 0.5"
      and d = "?g ! 1" and uuid = ex_uuid and now = ex_now and channel = ex_channel
      and repos = "[]" and issues = "[ex_issue]" and ths = "[ex_thought]" and uid = "''ph-9''"
      and ?now1.0 = 100 and ?now2.0 = 101 and hash = ex_hash and state = ex_spent
      and st = completed and outcome = "Some (ex_result True)" and finished = "Some 102"
      and res = "ex_result True", THEN conjunct2, THEN conjunct1, THEN mp, THEN conjunct1]
  have second: "in_range (snd (createEngineeringPheromone ''ph-9'' 100 101 ex_hash ex_spent
        ((?g ! 1)\<lparr>d_status := completed, result := Some (ex_result True),
                  completedAt := Some 102\<rparr>) (ex_result True)))"
    by (rule two) (intro conjI pers used member)
  note three = pheromones_in_range [where channel = ?c and arnd = "\<lambda>k. 0.1"
      and state = ex_agent and ?state2.0 = ?s1 and ?channel2.0 = ?c1
      and absorbedList = "[ex_pheromone\<lparr>strength := 0.8\<rparr>]",
      THEN conjunct2, THEN conjunct2, THEN mp, THEN conjunct2]
  have "list_all in_range [ex_pheromone\<lparr>strength := 0.8\<rparr>]"
    by (rule three) (intro conjI channel boost)
  then have third: "in_range (ex_pheromone\<lparr>strength := 0.8\<rparr>)" by simp
  from some first conf str scores second copied boost third show ?thesis by (intro conjI)
qed

text \<open>
  The bound on boldness is needed. \<open>ex_tired\<close> differs from \<open>ex_spent\<close> in a boldness
  of 0, which \<open>generatePersonality\<close> does not build: its \<open>fix_issue\<close> candidate is scored
  \<open>0.01 - 0.0168\<close>, and \<open>createEngineeringPheromone\<close> copies that priority into the
  pheromone's confidence without clamping it.
\<close>

lemma boldness_zero_confidence:
  "map (\<lambda>d. (action_type (action d),
              confidence (snd (createEngineeringPheromone ''ph-9'' 100 101 ex_hash ex_tired d
                 (ex_result True)))))
     (generateCandidateDecisions ex_uuid ex_now ex_tired ex_channel [] [ex_issue] [ex_thought])
   = [(explore_topic, 123 / 200), (fix_issue, - (17 / 2500))]"
  by code_simp

end
